theory Spec2Isabelle
  imports Complex_Main
begin

section \<open>Scalars, vectors and matrices\<close>

text \<open>
  The kinematic hand solver (\<^verbatim>\<open>kinematic_main.cpp\<close>) computes with single precision
  floats through the Eigen library. Here every scalar is a real number: rounding, signed
  zeros and the non-finite values of IEEE arithmetic are not values of the model. The one
  division of the solver's own code whose divisor its input can make zero, the division
  by the forward component in \<^verbatim>\<open>clamp_proximals\<close>, has no value there: the functions
  that reach it return an option, and \<open>None\<close> stands for a hand that holds infinite or
  not-a-number floats from then on. Eigen is a third-party library; each of its routines
  the solver calls is written out below by the closed formula its implementation
  evaluates.
\<close>

datatype vec3 = Vec3 (vx: real) (vy: real) (vz: real)

text \<open>\<^verbatim>\<open>xrt_vec3\<close> is the C struct of three floats; \<^verbatim>\<open>map_vec3\<close> reinterprets it as an
  Eigen vector without changing a component.\<close>

type_synonym xrt_vec3 = vec3

definition map_vec3 :: "xrt_vec3 \<Rightarrow> vec3" where
  "map_vec3 v = v"

datatype mat3 = Mat3 real real real  real real real  real real real

datatype quat = Quat (qw: real) (qx: real) (qy: real) (qz: real)

record affine3 =
  linear :: mat3
  translation :: vec3

definition UnitX :: vec3 where "UnitX = Vec3 1 0 0"
definition UnitY :: vec3 where "UnitY = Vec3 0 1 0"
definition UnitZ :: vec3 where "UnitZ = Vec3 0 0 1"
definition v3_Zero :: vec3 where "v3_Zero = Vec3 0 0 0"

fun v3_coeff :: "vec3 \<Rightarrow> nat \<Rightarrow> real" where
  "v3_coeff (Vec3 a b c) i = (if i = 0 then a else if i = 1 then b else c)"

fun v3_add :: "vec3 \<Rightarrow> vec3 \<Rightarrow> vec3" where
  "v3_add (Vec3 a b c) (Vec3 d e f) = Vec3 (a + d) (b + e) (c + f)"

fun v3_scale :: "real \<Rightarrow> vec3 \<Rightarrow> vec3" where
  "v3_scale s (Vec3 a b c) = Vec3 (s * a) (s * b) (s * c)"

fun v3_div :: "vec3 \<Rightarrow> real \<Rightarrow> vec3" where
  "v3_div (Vec3 a b c) s = Vec3 (a / s) (b / s) (c / s)"

fun v3_neg :: "vec3 \<Rightarrow> vec3" where
  "v3_neg (Vec3 a b c) = Vec3 (- a) (- b) (- c)"

fun v3_dot :: "vec3 \<Rightarrow> vec3 \<Rightarrow> real" where
  "v3_dot (Vec3 a b c) (Vec3 d e f) = a * d + b * e + c * f"

fun v3_cross :: "vec3 \<Rightarrow> vec3 \<Rightarrow> vec3" where
  "v3_cross (Vec3 a b c) (Vec3 d e f) = Vec3 (b * f - c * e) (c * d - a * f) (a * e - b * d)"

definition v3_squaredNorm :: "vec3 \<Rightarrow> real" where
  "v3_squaredNorm v = v3_dot v v"

definition v3_norm :: "vec3 \<Rightarrow> real" where
  "v3_norm v = sqrt (v3_squaredNorm v)"

text \<open>Eigen's \<^verbatim>\<open>normalized()\<close> and \<^verbatim>\<open>normalize()\<close>: the vector over its norm, and the vector
  itself when its squared norm is not positive.\<close>

definition v3_normalized :: "vec3 \<Rightarrow> vec3" where
  "v3_normalized n = (let z = v3_squaredNorm n in if z > 0 then v3_div n (sqrt z) else n)"

definition m3_Identity :: mat3 where
  "m3_Identity = Mat3 1 0 0  0 1 0  0 0 1"

fun m3_vec :: "mat3 \<Rightarrow> vec3 \<Rightarrow> vec3" where
  "m3_vec (Mat3 a b c  d e f  g h i) (Vec3 x y z) =
     Vec3 (a * x + b * y + c * z) (d * x + e * y + f * z) (g * x + h * y + i * z)"

fun m3_mul :: "mat3 \<Rightarrow> mat3 \<Rightarrow> mat3" where
  "m3_mul (Mat3 a b c  d e f  g h i) (Mat3 a' b' c'  d' e' f'  g' h' i') =
     Mat3 (a * a' + b * d' + c * g') (a * b' + b * e' + c * h') (a * c' + b * f' + c * i')
          (d * a' + e * d' + f * g') (d * b' + e * e' + f * h') (d * c' + e * f' + f * i')
          (g * a' + h * d' + i * g') (g * b' + h * e' + i * h') (g * c' + h * f' + i * i')"

fun m3_determinant :: "mat3 \<Rightarrow> real" where
  "m3_determinant (Mat3 a b c  d e f  g h i) =
     a * (e * i - f * h) - b * (d * i - f * g) + c * (d * h - e * g)"

text \<open>The divisor of the 3x3 inverse is the determinant: Eigen computes the inverse of a
  fixed-size 3x3 matrix as the transposed cofactor matrix over the determinant.\<close>

fun m3_inverse :: "mat3 \<Rightarrow> mat3" where
  "m3_inverse (Mat3 a b c  d e f  g h i) =
     (let det = m3_determinant (Mat3 a b c  d e f  g h i) in
      Mat3 ((e * i - f * h) / det) ((c * h - b * i) / det) ((b * f - c * e) / det)
           ((f * g - d * i) / det) ((a * i - c * g) / det) ((c * d - a * f) / det)
           ((d * h - e * g) / det) ((b * g - a * h) / det) ((a * e - b * d) / det))"

definition affine_vec :: "affine3 \<Rightarrow> vec3 \<Rightarrow> vec3" where
  "affine_vec A v = v3_add (m3_vec (linear A) v) (translation A)"

definition affine_mul :: "affine3 \<Rightarrow> affine3 \<Rightarrow> affine3" where
  "affine_mul A B =
     \<lparr> linear = m3_mul (linear A) (linear B),
       translation = v3_add (m3_vec (linear A) (translation B)) (translation A) \<rparr>"

definition affine_inverse :: "affine3 \<Rightarrow> affine3" where
  "affine_inverse A =
     (let li = m3_inverse (linear A) in
      \<lparr> linear = li, translation = v3_neg (m3_vec li (translation A)) \<rparr>)"

section \<open>Rotations\<close>

text \<open>\<^verbatim>\<open>Quaternion::toRotationMatrix\<close> (also called \<^verbatim>\<open>matrix()\<close>).\<close>

fun toRotationMatrix :: "quat \<Rightarrow> mat3" where
  "toRotationMatrix (Quat w x y z) =
     (let tx = 2 * x; ty = 2 * y; tz = 2 * z;
          twx = tx * w; twy = ty * w; twz = tz * w;
          txx = tx * x; txy = ty * x; txz = tz * x;
          tyy = ty * y; tyz = tz * y; tzz = tz * z
      in Mat3 (1 - (tyy + tzz)) (txy - twz) (txz + twy)
              (txy + twz) (1 - (txx + tzz)) (tyz - twx)
              (txz - twy) (tyz + twx) (1 - (txx + tyy)))"

text \<open>Eigen's \<^verbatim>\<open>NumTraits<float>::dummy_precision()\<close>.\<close>

definition dummy_precision :: real where
  "dummy_precision = 1 / 100000"

text \<open>
  \<^verbatim>\<open>Quaternion::setFromTwoVectors(a, b)\<close>. When the two directions are nearly opposite
  the rotation axis is the third right singular vector of the 2x3 matrix of the two
  directions, which Eigen takes from a Jacobi SVD; that routine is the parameter
  \<open>null_axis\<close>.
\<close>

definition setFromTwoVectors :: "(vec3 \<Rightarrow> vec3 \<Rightarrow> vec3) \<Rightarrow> vec3 \<Rightarrow> vec3 \<Rightarrow> quat" where
  "setFromTwoVectors null_axis a b =
     (let v0 = v3_normalized a; v1 = v3_normalized b; c = v3_dot v1 v0 in
      if c < - 1 + dummy_precision then
        (let c' = max c (- 1);
             axis = null_axis v0 v1;
             w2 = (1 + c') * (1 / 2);
             r = v3_scale (sqrt (1 - w2)) axis
         in Quat (sqrt w2) (vx r) (vy r) (vz r))
      else
        (let axis = v3_cross v0 v1;
             s = sqrt ((1 + c) * 2);
             invs = 1 / s;
             r = v3_scale invs axis
         in Quat (s * (1 / 2)) (vx r) (vy r) (vz r)))"

text \<open>\<^verbatim>\<open>AngleAxis::toRotationMatrix\<close>.\<close>

fun angle_axis_matrix :: "real \<Rightarrow> vec3 \<Rightarrow> mat3" where
  "angle_axis_matrix angle (Vec3 ax ay az) =
     (let sx = sin angle * ax; sy = sin angle * ay; sz = sin angle * az;
          c = cos angle;
          cx = (1 - c) * ax; cy = (1 - c) * ay; cz = (1 - c) * az
      in Mat3 (cx * ax + c) (cx * ay - sz) (cx * az + sy)
              (cx * ay + sz) (cy * ay + c) (cy * az - sx)
              (cx * az - sy) (cy * az + sx) (cz * az + c))"

text \<open>The C library's two-argument arctangent, on the reals.\<close>

definition atan2 :: "real \<Rightarrow> real \<Rightarrow> real" where
  "atan2 y x =
     (if x > 0 then arctan (y / x)
      else if x < 0 then (if y \<ge> 0 then arctan (y / x) + pi else arctan (y / x) - pi)
      else if y > 0 then pi / 2
      else if y < 0 then - (pi / 2)
      else 0)"


fun m3_coeff :: "mat3 \<Rightarrow> nat \<Rightarrow> nat \<Rightarrow> real" where
  "m3_coeff (Mat3 a b c  d e f  g h i) r cl =
     (if r = 0 then v3_coeff (Vec3 a b c) cl
      else if r = 1 then v3_coeff (Vec3 d e f) cl
      else v3_coeff (Vec3 g h i) cl)"

fun v3_set :: "vec3 \<Rightarrow> nat \<Rightarrow> real \<Rightarrow> vec3" where
  "v3_set (Vec3 a b c) i v =
     (if i = 0 then Vec3 v b c else if i = 1 then Vec3 a v c else Vec3 a b v)"

text \<open>The quaternion of a rotation matrix, as Eigen's assignment of a 3x3 matrix to a
  quaternion computes it: from the trace when it is positive, and from the largest
  diagonal entry otherwise.\<close>

definition quat_of_matrix :: "mat3 \<Rightarrow> quat" where
  "quat_of_matrix mat =
     (let t = m3_coeff mat 0 0 + m3_coeff mat 1 1 + m3_coeff mat 2 2 in
      if t > 0 then
        (let t1 = sqrt (t + 1); w = (1 / 2) * t1; t2 = (1 / 2) / t1
         in Quat w ((m3_coeff mat 2 1 - m3_coeff mat 1 2) * t2)
                   ((m3_coeff mat 0 2 - m3_coeff mat 2 0) * t2)
                   ((m3_coeff mat 1 0 - m3_coeff mat 0 1) * t2))
      else
        (let i0 = (if m3_coeff mat 1 1 > m3_coeff mat 0 0 then 1 else 0);
             i = (if m3_coeff mat 2 2 > m3_coeff mat i0 i0 then 2 else i0);
             j = (i + 1) mod 3;
             k = (j + 1) mod 3;
             t1 = sqrt (m3_coeff mat i i - m3_coeff mat j j - m3_coeff mat k k + 1);
             t2 = (1 / 2) / t1;
             v = v3_set (v3_set (v3_set v3_Zero i ((1 / 2) * t1))
                                j ((m3_coeff mat j i + m3_coeff mat i j) * t2))
                        k ((m3_coeff mat k i + m3_coeff mat i k) * t2)
         in Quat ((m3_coeff mat k j - m3_coeff mat j k) * t2) (vx v) (vy v) (vz v)))"

text \<open>The angle and axis of a quaternion (Eigen's assignment of a quaternion to an
  \<^verbatim>\<open>AngleAxis\<close>): the angle is twice the arctangent of the vector part's norm over the
  magnitude of the scalar part.\<close>

definition angle_axis_of_quat :: "quat \<Rightarrow> real \<times> vec3" where
  "angle_axis_of_quat q =
     (let v = Vec3 (qx q) (qy q) (qz q); n = v3_norm v in
      if n \<noteq> 0 then
        (2 * atan2 n \<bar>qw q\<bar>, v3_div v (if qw q < 0 then - n else n))
      else (0, Vec3 1 0 0))"

definition angle_axis_of_matrix :: "mat3 \<Rightarrow> real \<times> vec3" where
  "angle_axis_of_matrix m = angle_axis_of_quat (quat_of_matrix m)"

section \<open>Helpers of the solver's own headers\<close>

text \<open>Modelled from the spec: \<^verbatim>\<open>rad\<close> of \<^verbatim>\<open>kinematic_tiny_math.hpp\<close>, which is not among
  the sources; the spec writes the limits in degrees and the solver passes
  \<^verbatim>\<open>rad(degrees)\<close> where radians are expected.\<close>

definition rad :: "real \<Rightarrow> real" where
  "rad degrees = degrees * (pi / 180)"

text \<open>Modelled from the spec: \<^verbatim>\<open>clamp\<close> of \<^verbatim>\<open>kinematic_tiny_math.hpp\<close>, which is not among
  the sources; the spec has the tangents clamped to the interval of the two limits.\<close>

definition clamp :: "real \<Rightarrow> real \<Rightarrow> real \<Rightarrow> real" where
  "clamp v lo hi = min hi (max lo v)"

section \<open>The hand model\<close>

record bone_t =
  bone_relation :: affine3
  world_pose :: affine3
  keypoint_idx_21 :: nat

record finger_t =
  bones :: "nat \<Rightarrow> bone_t"

text \<open>The fixed-size arrays of the hand (five fingers, five bones, 21 points) are
  functions of the index; the solver reads and writes them at constant indices inside
  these bounds only.\<close>

record kinematic_hand_4f =
  wrist_relation :: affine3
  fingers :: "nat \<Rightarrow> finger_t"
  t_jts :: "nat \<Rightarrow> xrt_vec3"
  t_jts_as_mat :: "nat \<Rightarrow> vec3"
  kinematic :: "nat \<Rightarrow> vec3"

text \<open>
  What the solver calls and the sources do not define:
  \<^item> \<open>umeyama\<close>: Eigen's least-squares rigid alignment of two 3x21 point sets (columns);
  \<^item> \<open>statics_init_world_poses\<close>: the forward kinematics of \<^verbatim>\<open>kinematic_hand_init.hpp\<close>;
  \<^item> \<open>svd_null_axis\<close>: the singular vector used by \<open>setFromTwoVectors\<close>;
  \<^item> \<open>affine_rotation\<close>: \<^verbatim>\<open>Transform::rotation()\<close>, which Eigen computes by an SVD;
  \<^item> \<open>hidden_thumb\<close>: the macro \<^verbatim>\<open>CONTINUE_IF_HIDDEN_THUMB\<close> of \<^verbatim>\<open>kinematic_defines.hpp\<close>,
    as the test on (finger index, bone index) under which the output loop continues.

  The last field is no routine. \<open>non_finite_hand\<close> stands for the hand as the optimizer
  leaves it after a division by zero: the source goes on computing with infinite and
  not-a-number floats, which are no real numbers, so what the hand then holds is left
  open.
\<close>

record externals =
  umeyama :: "(nat \<Rightarrow> vec3) \<Rightarrow> (nat \<Rightarrow> vec3) \<Rightarrow> affine3"
  statics_init_world_poses :: "kinematic_hand_4f \<Rightarrow> kinematic_hand_4f"
  svd_null_axis :: "vec3 \<Rightarrow> vec3 \<Rightarrow> vec3"
  affine_rotation :: "affine3 \<Rightarrow> mat3"
  hidden_thumb :: "nat \<Rightarrow> nat \<Rightarrow> bool"
  non_finite_hand :: "kinematic_hand_4f \<Rightarrow> kinematic_hand_4f"

definition get_bone :: "kinematic_hand_4f \<Rightarrow> nat \<Rightarrow> nat \<Rightarrow> bone_t" where
  "get_bone hand finger_idx bone_idx = bones (fingers hand finger_idx) bone_idx"

text \<open>The assignment \<^verbatim>\<open>bone->bone_relation.linear() = m\<close> on the bone at
  \<^verbatim>\<open>hand->fingers[finger_idx].bones[bone_idx]\<close>.\<close>

definition set_bone_linear :: "kinematic_hand_4f \<Rightarrow> nat \<Rightarrow> nat \<Rightarrow> mat3 \<Rightarrow> kinematic_hand_4f" where
  "set_bone_linear hand finger_idx bone_idx m =
     (let of' = fingers hand finger_idx;
          bone = bones of' bone_idx;
          bone' = bone\<lparr> bone_relation := (bone_relation bone)\<lparr> linear := m \<rparr> \<rparr>
      in hand\<lparr> fingers := (fingers hand)(finger_idx := of'\<lparr> bones := (bones of')(bone_idx := bone') \<rparr>) \<rparr>)"


section \<open>RigidAlignment: \<^verbatim>\<open>two\<close>\<close>

text \<open>The loop over the five fingers and bones 1 to 4 writes column \<open>i\<close> of
  \<^verbatim>\<open>hand->kinematic\<close>, incrementing \<open>i\<close> before each write.\<close>

definition two_set_ele :: "(nat \<Rightarrow> vec3) \<Rightarrow> affine3 \<Rightarrow> nat \<Rightarrow> (nat \<Rightarrow> vec3)" where
  "two_set_ele thing jt idx = thing(idx := translation jt)"

definition finger_bone_indices :: "nat \<Rightarrow> (nat \<times> nat) list" where
  "finger_bone_indices first_bone =
     concat (map (\<lambda>finger_idx. map (\<lambda>bone_idx. (finger_idx, bone_idx)) [first_bone..<5]) [0..<5])"

definition two :: "externals \<Rightarrow> kinematic_hand_4f \<Rightarrow> kinematic_hand_4f" where
  "two ext hand =
     (let k0 = two_set_ele (kinematic hand) (wrist_relation hand) 0;
          (i, k) = foldl (\<lambda>(i, k) (finger_idx, bone_idx).
                      (i + 1, two_set_ele k (world_pose (get_bone hand finger_idx bone_idx)) (i + 1)))
                    (0, k0) (finger_bone_indices 1);
          aff3d = umeyama ext k (t_jts_as_mat hand);
          hand' = hand\<lparr> kinematic := k, wrist_relation := affine_mul aff3d (wrist_relation hand) \<rparr>
      in statics_init_world_poses ext hand')"

section \<open>BoneRotationEstimator: \<^verbatim>\<open>do_it_for_bone\<close>\<close>

text \<open>The sums over the more distal bones of the finger: the number of children, the sum
  of their target points and the sum of their current world positions.\<close>

definition children_sums :: "kinematic_hand_4f \<Rightarrow> nat \<Rightarrow> nat \<Rightarrow> nat \<times> vec3 \<times> vec3" where
  "children_sums hand finger_idx bone_idx =
     foldl (\<lambda>(num_children, target, kine) idx.
              (num_children + 1,
               v3_add target (map_vec3 (t_jts hand (keypoint_idx_21 (get_bone hand finger_idx idx)))),
               v3_add kine (translation (world_pose (get_bone hand finger_idx idx)))))
           (0, v3_Zero, v3_Zero) [bone_idx + 1..<5]"

text \<open>The two directions handed to \<open>setFromTwoVectors\<close>: the centroids of the children's
  current and target positions, in the bone's frame, normalized.\<close>

definition bone_directions :: "kinematic_hand_4f \<Rightarrow> nat \<Rightarrow> nat \<Rightarrow> vec3 \<times> vec3" where
  "bone_directions hand finger_idx bone_idx =
     (let bone = get_bone hand finger_idx bone_idx;
          (num_children, target, kine) = children_sums hand finger_idx bone_idx;
          kine1 = v3_scale (1 / real num_children) kine;
          target1 = v3_scale (1 / real num_children) target;
          kine2 = affine_vec (affine_inverse (world_pose bone)) kine1;
          target2 = affine_vec (affine_inverse (world_pose bone)) target1
      in (v3_normalized kine2, v3_normalized target2))"

definition bone_correction :: "externals \<Rightarrow> kinematic_hand_4f \<Rightarrow> nat \<Rightarrow> nat \<Rightarrow> mat3" where
  "bone_correction ext hand finger_idx bone_idx =
     (let (kine, target) = bone_directions hand finger_idx bone_idx
      in toRotationMatrix (setFromTwoVectors (svd_null_axis ext) kine target))"

definition do_it_for_bone :: "externals \<Rightarrow> kinematic_hand_4f \<Rightarrow> nat \<Rightarrow> nat \<Rightarrow> bool \<Rightarrow> kinematic_hand_4f" where
  "do_it_for_bone ext hand finger_idx bone_idx clamp_to_x_axis_rotation =
     (let bone = get_bone hand finger_idx bone_idx;
          rot = bone_correction ext hand finger_idx bone_idx
      in set_bone_linear hand finger_idx bone_idx (m3_mul (linear (bone_relation bone)) rot))"

section \<open>HingeClamp: \<^verbatim>\<open>clamp_to_x_axis\<close>\<close>

definition axes :: "nat \<Rightarrow> vec3" where
  "axes i = (if i = 0 then UnitX else if i = 1 then UnitY else UnitZ)"

text \<open>The correction step (lines 151 to 163), on the linear part of the bone relation.\<close>

definition hinge_correction :: "externals \<Rightarrow> mat3 \<Rightarrow> mat3" where
  "hinge_correction ext rot =
     (let axis = 0;
          axis_rotated_by_input = m3_vec rot (axes axis);
          correction_rot = toRotationMatrix
            (setFromTwoVectors (svd_null_axis ext) (v3_normalized axis_rotated_by_input) (axes axis))
      in m3_mul correction_rot rot)"

text \<open>The measured angle about the locked axis (lines 170 to 173).\<close>

definition hinge_rotation_value :: "mat3 \<Rightarrow> real" where
  "hinge_rotation_value rot =
     (let axis = 0;
          axis_to_clamp_rotation = axes ((axis + 1) mod 3);
          new_ortho_direction = m3_vec rot axis_to_clamp_rotation
      in atan2 (v3_coeff new_ortho_direction ((axis + 2) mod 3))
               (v3_coeff new_ortho_direction ((axis + 1) mod 3)))"

text \<open>The positive and the negative value of lines 181 to 190, and the bound chosen
  from them for an angle outside the range (lines 192 to 197).\<close>

definition hinge_wrapped_values :: "real \<Rightarrow> real \<times> real" where
  "hinge_wrapped_values rotation_value =
     (if rotation_value < 0 then (pi * 2 - rotation_value, rotation_value)
      else (rotation_value, - pi * 2 + rotation_value))"

definition hinge_bound :: "real \<Rightarrow> real \<Rightarrow> real \<Rightarrow> real" where
  "hinge_bound rotation_value min_angle max_angle =
     (let (positive_rotation_value, negative_rotation_value) = hinge_wrapped_values rotation_value
      in if positive_rotation_value - max_angle > min_angle - negative_rotation_value
         then min_angle else max_angle)"

definition clamp_to_x_axis_rot :: "externals \<Rightarrow> mat3 \<Rightarrow> bool \<Rightarrow> real \<Rightarrow> real \<Rightarrow> mat3" where
  "clamp_to_x_axis_rot ext rot clamp_angle min_angle max_angle =
     (let rot1 = hinge_correction ext rot in
      if \<not> clamp_angle then rot1
      else
        (let rotation_value = hinge_rotation_value rot1 in
         if rotation_value < max_angle \<and> rotation_value > min_angle then rot1
         else angle_axis_matrix (hinge_bound rotation_value min_angle max_angle) (axes 0)))"

definition clamp_to_x_axis ::
  "externals \<Rightarrow> kinematic_hand_4f \<Rightarrow> nat \<Rightarrow> nat \<Rightarrow> bool \<Rightarrow> real \<Rightarrow> real \<Rightarrow> kinematic_hand_4f" where
  "clamp_to_x_axis ext hand finger_idx bone_idx clamp_angle min_angle max_angle =
     set_bone_linear hand finger_idx bone_idx
       (clamp_to_x_axis_rot ext (linear (bone_relation (get_bone hand finger_idx bone_idx)))
          clamp_angle min_angle max_angle)"

section \<open>SwingTwistClamp: \<^verbatim>\<open>clamp_proximals\<close>\<close>

text \<open>The swung forward axis, the swing and the twist of a rotation (lines 307 to 320).\<close>

definition swung_forward :: "mat3 \<Rightarrow> vec3" where
  "swung_forward rot = m3_vec rot (v3_neg UnitZ)"

definition swing_of :: "externals \<Rightarrow> mat3 \<Rightarrow> mat3" where
  "swing_of ext rot =
     toRotationMatrix (setFromTwoVectors (svd_null_axis ext) (v3_neg UnitZ) (swung_forward rot))"

definition twist_of :: "externals \<Rightarrow> mat3 \<Rightarrow> mat3" where
  "twist_of ext rot = m3_mul rot (m3_inverse (swing_of ext rot))"

definition twist_aax_of :: "externals \<Rightarrow> mat3 \<Rightarrow> real \<times> vec3" where
  "twist_aax_of ext rot = angle_axis_of_matrix (twist_of ext rot)"

text \<open>The cap on the twist angle (lines 334 to 342).\<close>

definition clamp_twist_angle :: "real \<Rightarrow> real \<Rightarrow> real" where
  "clamp_twist_angle angle max_swing_angle =
     (if \<bar>angle\<bar> > max_swing_angle then max_swing_angle * (angle / \<bar>angle\<bar>) else angle)"

text \<open>The forward axis after the guard of lines 345 to 349; its third component is the
  divisor of line 350.\<close>

definition guarded_forward :: "vec3 \<Rightarrow> vec3" where
  "guarded_forward our_z =
     (if vz our_z > 0 then Vec3 (vx our_z) (vy our_z) (- (1 / 1000000)) else our_z)"

definition tangent_divisor :: "mat3 \<Rightarrow> real" where
  "tangent_divisor rot = vz (guarded_forward (swung_forward rot))"

text \<open>Lines 350 to 354: the forward axis scaled to the tangent plane and clamped. With a
  divisor of zero the quotient of line 350 is no finite float and the result is \<open>None\<close>.\<close>

definition clamped_forward :: "mat3 \<Rightarrow> real \<Rightarrow> real \<Rightarrow> real \<Rightarrow> real \<Rightarrow> vec3 option" where
  "clamped_forward rot tanangle_left tanangle_right tanangle_curled tanangle_uncurled =
     (let our_z = guarded_forward (swung_forward rot) in
      if tangent_divisor rot = 0 then None
      else
        (let our_z1 = v3_scale (- 1 / tangent_divisor rot) our_z
         in Some (Vec3 (clamp (vx our_z1) tanangle_left tanangle_right)
                       (clamp (vy our_z1) tanangle_curled tanangle_uncurled)
                       (vz our_z1))))"

definition clamp_proximals_rot ::
  "externals \<Rightarrow> mat3 \<Rightarrow> real \<Rightarrow> real \<Rightarrow> real \<Rightarrow> real \<Rightarrow> real \<Rightarrow> mat3 option" where
  "clamp_proximals_rot ext rot max_swing_angle tanangle_left tanangle_right tanangle_curled
       tanangle_uncurled =
     (let (angle, axis) = twist_aax_of ext rot;
          angle' = clamp_twist_angle angle max_swing_angle
      in case clamped_forward rot tanangle_left tanangle_right tanangle_curled tanangle_uncurled of
           None \<Rightarrow> None
         | Some our_z \<Rightarrow>
             (let simple = toRotationMatrix
                    (setFromTwoVectors (svd_null_axis ext) (v3_neg UnitZ) (v3_normalized our_z))
              in Some (m3_mul (angle_axis_matrix angle' axis) simple)))"

definition clamp_proximals ::
  "externals \<Rightarrow> kinematic_hand_4f \<Rightarrow> nat \<Rightarrow> nat \<Rightarrow> real \<Rightarrow> real \<Rightarrow> real \<Rightarrow> real \<Rightarrow> real
     \<Rightarrow> kinematic_hand_4f option" where
  "clamp_proximals ext hand finger_idx bone_idx max_swing_angle tanangle_left tanangle_right
       tanangle_curled tanangle_uncurled =
     map_option (set_bone_linear hand finger_idx bone_idx)
       (clamp_proximals_rot ext (linear (bone_relation (get_bone hand finger_idx bone_idx)))
          max_swing_angle tanangle_left tanangle_right tanangle_curled tanangle_uncurled)"


section \<open>HandOptimizer: \<^verbatim>\<open>do_it_for_finger\<close> and \<^verbatim>\<open>optimize\<close>\<close>

text \<open>
  The bodies of \<^verbatim>\<open>do_it_for_finger\<close> and of the loop of \<^verbatim>\<open>optimize\<close> are straight-line
  sequences of calls on the one hand. Each is written as the list of its calls in program
  order, with every argument, and run by \<open>run_calls\<close>, which gives each call the function
  it names (\<open>exec\<close>) and stops with \<open>None\<close> at a call that divides by zero. A call of
  \<^verbatim>\<open>clamp_proximals\<close> that leaves the four tangent limits out takes the defaults of its
  declaration.
\<close>

datatype call =
    Two
  | Do_it_for_bone nat nat bool
  | Clamp_proximals nat nat real real real real real
  | Clamp_to_x_axis nat nat bool real real
  | Statics_init_world_poses

fun exec :: "externals \<Rightarrow> kinematic_hand_4f \<Rightarrow> call \<Rightarrow> kinematic_hand_4f option" where
  "exec ext hand Two = Some (two ext hand)"
| "exec ext hand (Do_it_for_bone finger_idx bone_idx c) =
     Some (do_it_for_bone ext hand finger_idx bone_idx c)"
| "exec ext hand (Clamp_proximals finger_idx bone_idx max_swing_angle l r c u) =
     clamp_proximals ext hand finger_idx bone_idx max_swing_angle l r c u"
| "exec ext hand (Clamp_to_x_axis finger_idx bone_idx clamp_angle min_angle max_angle) =
     Some (clamp_to_x_axis ext hand finger_idx bone_idx clamp_angle min_angle max_angle)"
| "exec ext hand Statics_init_world_poses = Some (statics_init_world_poses ext hand)"

fun run_calls :: "externals \<Rightarrow> kinematic_hand_4f \<Rightarrow> call list \<Rightarrow> kinematic_hand_4f option" where
  "run_calls ext hand [] = Some hand"
| "run_calls ext hand (c # cs) =
     (case exec ext hand c of None \<Rightarrow> None | Some hand' \<Rightarrow> run_calls ext hand' cs)"

definition clamp_proximals_default :: "nat \<Rightarrow> nat \<Rightarrow> real \<Rightarrow> call" where
  "clamp_proximals_default finger_idx bone_idx max_swing_angle =
     Clamp_proximals finger_idx bone_idx max_swing_angle
       (tan (rad (- 20))) (tan (rad 20)) (tan (rad (- 89))) (tan (rad 30))"

definition do_it_for_finger_calls :: "nat \<Rightarrow> call list" where
  "do_it_for_finger_calls finger_idx =
     [ Do_it_for_bone finger_idx 0 False,
       Clamp_proximals finger_idx 0 (rad 4) (tan (rad (- 30))) (tan (rad 30)) (tan (rad (- 10))) (tan (rad 10)),
       Statics_init_world_poses,

       Do_it_for_bone finger_idx 1 True,
       clamp_proximals_default finger_idx 1 (rad 4),
       Statics_init_world_poses,

       Do_it_for_bone finger_idx 2 True,
       Clamp_to_x_axis finger_idx 2 True (rad (- 90)) (rad 10),
       Statics_init_world_poses,

       Do_it_for_bone finger_idx 3 True,
       Clamp_to_x_axis finger_idx 3 True (rad (- 90)) (rad 10),
       Statics_init_world_poses ]"

definition do_it_for_finger ::
  "externals \<Rightarrow> kinematic_hand_4f \<Rightarrow> nat \<Rightarrow> kinematic_hand_4f option" where
  "do_it_for_finger ext hand finger_idx = run_calls ext hand (do_it_for_finger_calls finger_idx)"

text \<open>One pass of the loop of \<^verbatim>\<open>optimize\<close>: the calls on the thumb, then the four calls
  of \<^verbatim>\<open>do_it_for_finger\<close>, each standing for the calls of its body.\<close>

definition optimize_thumb_calls :: "call list" where
  "optimize_thumb_calls =
     [ Two,
       Do_it_for_bone 0 1 False,
       Clamp_proximals 0 1 (rad 70) (tan (rad (- 40))) (tan (rad 40)) (tan (rad (- 40))) (tan (rad 40)),
       Statics_init_world_poses,

       Do_it_for_bone 0 2 True,
       Clamp_to_x_axis 0 2 True (rad (- 90)) (rad 40),
       Statics_init_world_poses,

       Do_it_for_bone 0 3 True,
       Clamp_to_x_axis 0 3 True (rad (- 90)) (rad 40),
       Statics_init_world_poses,

       Two ]"

definition optimize_iteration_calls :: "call list" where
  "optimize_iteration_calls =
     optimize_thumb_calls
     @ do_it_for_finger_calls 1
     @ do_it_for_finger_calls 2
     @ do_it_for_finger_calls 3
     @ do_it_for_finger_calls 4"

definition optimize_calls :: "call list" where
  "optimize_calls = concat (replicate 15 optimize_iteration_calls) @ [Two]"

definition optimize :: "externals \<Rightarrow> kinematic_hand_4f \<Rightarrow> kinematic_hand_4f option" where
  "optimize ext hand = run_calls ext hand optimize_calls"

section \<open>FrameAdapter: \<^verbatim>\<open>optimize_new_frame\<close>\<close>

text \<open>The relation flags are a bit set in the source; here the set of the bits that are
  on.\<close>

datatype xrt_space_relation_flags =
    XRT_SPACE_RELATION_ORIENTATION_VALID_BIT
  | XRT_SPACE_RELATION_POSITION_VALID_BIT
  | XRT_SPACE_RELATION_LINEAR_VELOCITY_VALID_BIT
  | XRT_SPACE_RELATION_ANGULAR_VELOCITY_VALID_BIT
  | XRT_SPACE_RELATION_ORIENTATION_TRACKED_BIT
  | XRT_SPACE_RELATION_POSITION_TRACKED_BIT

record xrt_pose =
  orientation :: quat
  position :: xrt_vec3

record xrt_space_relation =
  relation_flags :: "xrt_space_relation_flags set"
  pose :: xrt_pose

text \<open>\<^verbatim>\<open>hand_joint_set_default\<close> is the array of the joints' relations
  (\<^verbatim>\<open>values.hand_joint_set_default[idx].relation\<close>).\<close>

record xrt_hand_joint_set =
  hand_joint_set_default :: "nat \<Rightarrow> xrt_space_relation"
  is_active :: bool

text \<open>The joint numbers of \<^verbatim>\<open>enum xrt_hand_joint\<close>, whose declaration is not among the
  sources; they are the numbers of the OpenXR hand joints.\<close>

definition XRT_HAND_JOINT_PALM :: nat where "XRT_HAND_JOINT_PALM = 0"
definition XRT_HAND_JOINT_WRIST :: nat where "XRT_HAND_JOINT_WRIST = 1"
definition XRT_HAND_JOINT_THUMB_METACARPAL :: nat where "XRT_HAND_JOINT_THUMB_METACARPAL = 2"

definition all_valid_tracked :: "xrt_space_relation_flags set" where
  "all_valid_tracked =
     {XRT_SPACE_RELATION_ORIENTATION_VALID_BIT, XRT_SPACE_RELATION_ORIENTATION_TRACKED_BIT,
      XRT_SPACE_RELATION_POSITION_VALID_BIT, XRT_SPACE_RELATION_POSITION_TRACKED_BIT}"

definition make_joint_at_matrix_left_hand ::
  "externals \<Rightarrow> nat \<Rightarrow> affine3 \<Rightarrow> xrt_hand_joint_set \<Rightarrow> xrt_hand_joint_set" where
  "make_joint_at_matrix_left_hand ext idx pose_in hand_out =
     (let v = translation pose_in;
          q = quat_of_matrix (affine_rotation ext pose_in)
      in hand_out\<lparr> hand_joint_set_default := (hand_joint_set_default hand_out)
           (idx := \<lparr> relation_flags = all_valid_tracked,
                    pose = \<lparr> orientation = q, position = Vec3 (vx v) (vy v) (vz v) \<rparr> \<rparr>) \<rparr>)"

text \<open>For the right hand the rotation is mirrored on X (row 0 negated) and then the three
  entries of its column 0 are negated.\<close>

fun mirror_rotation :: "mat3 \<Rightarrow> mat3" where
  "mirror_rotation (Mat3 a b c  d e f  g h i) =
     (case m3_mul (Mat3 (- 1) 0 0  0 1 0  0 0 1) (Mat3 a b c  d e f  g h i) of
        Mat3 a' b' c'  d' e' f'  g' h' i' \<Rightarrow>
          Mat3 (a' * (- 1)) b' c'  (d' * (- 1)) e' f'  (g' * (- 1)) h' i')"

definition make_joint_at_matrix_right_hand ::
  "externals \<Rightarrow> nat \<Rightarrow> affine3 \<Rightarrow> xrt_hand_joint_set \<Rightarrow> xrt_hand_joint_set" where
  "make_joint_at_matrix_right_hand ext idx pose_in hand_out =
     (let v = translation pose_in;
          rotation = mirror_rotation (affine_rotation ext pose_in);
          q = quat_of_matrix rotation
      in hand_out\<lparr> hand_joint_set_default := (hand_joint_set_default hand_out)
           (idx := \<lparr> relation_flags = all_valid_tracked,
                    pose = \<lparr> orientation = q, position = Vec3 (- vx v) (vy v) (vz v) \<rparr> \<rparr>) \<rparr>)"

definition make_joint_at_matrix ::
  "externals \<Rightarrow> nat \<Rightarrow> affine3 \<Rightarrow> xrt_hand_joint_set \<Rightarrow> int \<Rightarrow> xrt_hand_joint_set" where
  "make_joint_at_matrix ext idx pose_in hand_out hand_idx =
     (if hand_idx = 0 then make_joint_at_matrix_left_hand ext idx pose_in hand_out
      else make_joint_at_matrix_right_hand ext idx pose_in hand_out)"

text \<open>The intake loop (lines 482 to 494): one step for the point \<open>i\<close>.\<close>

definition intake_point :: "(nat \<Rightarrow> xrt_vec3) \<Rightarrow> int \<Rightarrow> kinematic_hand_4f \<Rightarrow> nat \<Rightarrow> kinematic_hand_4f" where
  "intake_point model_joints_3d hand_idx hand i =
     (let p = (if hand_idx = 0 then model_joints_3d i
               else Vec3 (- vx (model_joints_3d i)) (vy (model_joints_3d i)) (vz (model_joints_3d i)));
          hand1 = hand\<lparr> t_jts := (t_jts hand)(i := p) \<rparr>
      in hand1\<lparr> t_jts_as_mat := (t_jts_as_mat hand1)
           (i := Vec3 (vx (t_jts hand1 i)) (vy (t_jts hand1 i)) (vz (t_jts hand1 i))) \<rparr>)"

definition intake :: "(nat \<Rightarrow> xrt_vec3) \<Rightarrow> int \<Rightarrow> kinematic_hand_4f \<Rightarrow> kinematic_hand_4f" where
  "intake model_joints_3d hand_idx hand = foldl (intake_point model_joints_3d hand_idx) hand [0..<21]"

text \<open>The output loop (lines 513 to 525): the state is the next joint number \<open>start\<close>
  and the joint set.\<close>

definition emit_bone ::
  "externals \<Rightarrow> kinematic_hand_4f \<Rightarrow> int \<Rightarrow> nat \<times> xrt_hand_joint_set \<Rightarrow> nat \<times> nat
     \<Rightarrow> nat \<times> xrt_hand_joint_set" where
  "emit_bone ext hand hand_idx st fb =
     (case (st, fb) of ((start, out), (finger_idx, bone_idx)) \<Rightarrow>
        if hidden_thumb ext finger_idx bone_idx then (start, out)
        else if \<not> (finger_idx = 0 \<and> bone_idx = 0) then
          (start + 1,
           make_joint_at_matrix ext start (world_pose (get_bone hand finger_idx bone_idx)) out hand_idx)
        else (start, out))"

definition palm_relation_of :: "kinematic_hand_4f \<Rightarrow> affine3" where
  "palm_relation_of hand =
     \<lparr> linear = linear (world_pose (get_bone hand 2 0)),
       translation =
         v3_add (v3_add v3_Zero (v3_div (translation (world_pose (get_bone hand 2 0))) 2))
                (v3_div (translation (world_pose (get_bone hand 2 1))) 2) \<rparr>"

text \<open>The three objects the entry point is handed: the caller's array of 21 points, the
  hand and the joint set to fill. The entry point has no error value: after a division
  by zero in the optimizer it emits the joints of the hand as it then is.\<close>

record frame_memory =
  model_joints_3d :: "nat \<Rightarrow> xrt_vec3"
  hand :: kinematic_hand_4f
  out_set :: xrt_hand_joint_set

definition optimize_new_frame :: "externals \<Rightarrow> frame_memory \<Rightarrow> int \<Rightarrow> frame_memory" where
  "optimize_new_frame ext mem hand_idx =
     (let hand1 = intake (model_joints_3d mem) hand_idx (hand mem);
          hand2 = (case optimize ext hand1 of Some h \<Rightarrow> h | None \<Rightarrow> non_finite_hand ext hand1);
          out1 = make_joint_at_matrix ext XRT_HAND_JOINT_WRIST (wrist_relation hand2) (out_set mem) hand_idx;
          out2 = make_joint_at_matrix ext XRT_HAND_JOINT_PALM (palm_relation_of hand2) out1 hand_idx;
          (start, out3) = foldl (emit_bone ext hand2 hand_idx)
                            (XRT_HAND_JOINT_THUMB_METACARPAL, out2) (finger_bone_indices 0)
      in mem\<lparr> hand := hand2, out_set := out3\<lparr> is_active := True \<rparr> \<rparr>)"


section \<open>Vocabulary of the properties\<close>

subsection \<open>The components a call belongs to\<close>

text \<open>The spec names the solver's functions by component: \<^verbatim>\<open>two\<close> is RigidAlignment,
  \<^verbatim>\<open>do_it_for_bone\<close> BoneRotationEstimator, \<^verbatim>\<open>clamp_proximals\<close> SwingTwistClamp,
  \<^verbatim>\<open>clamp_to_x_axis\<close> HingeClamp (with the flag that enables its angle range) and
  \<^verbatim>\<open>_statics_init_world_poses\<close> the forward-kinematics recompute.\<close>

datatype component =
    RigidAlignment
  | BoneRotationEstimator nat nat
  | SwingTwistClamp nat nat
  | HingeClamp nat nat bool
  | ForwardKinematics

fun component_of :: "call \<Rightarrow> component" where
  "component_of Two = RigidAlignment"
| "component_of (Do_it_for_bone finger_idx bone_idx c) = BoneRotationEstimator finger_idx bone_idx"
| "component_of (Clamp_proximals finger_idx bone_idx m l r c u) = SwingTwistClamp finger_idx bone_idx"
| "component_of (Clamp_to_x_axis finger_idx bone_idx clamp_angle mn mx) =
     HingeClamp finger_idx bone_idx clamp_angle"
| "component_of Statics_init_world_poses = ForwardKinematics"

text \<open>A schedule for one finger: bones 0 to 3 in order, each with the estimator, the
  limiter that \<open>limiter\<close> gives the bone, and the forward-kinematics recompute.\<close>

definition finger_schedule :: "(nat \<Rightarrow> nat \<Rightarrow> component) \<Rightarrow> nat \<Rightarrow> component list" where
  "finger_schedule limiter finger_idx =
     concat (map (\<lambda>bone_idx. [BoneRotationEstimator finger_idx bone_idx,
                               limiter finger_idx bone_idx,
                               ForwardKinematics]) [0..<4])"

text \<open>The limiter per bone as the spec has it (swing and twist for bone 0 only), and as
  the source has it (swing and twist for bones 0 and 1).\<close>

definition spec_limiter :: "nat \<Rightarrow> nat \<Rightarrow> component" where
  "spec_limiter finger_idx bone_idx =
     (if bone_idx = 0 then SwingTwistClamp finger_idx bone_idx
      else HingeClamp finger_idx bone_idx True)"

definition source_limiter :: "nat \<Rightarrow> nat \<Rightarrow> component" where
  "source_limiter finger_idx bone_idx =
     (if bone_idx \<le> 1 then SwingTwistClamp finger_idx bone_idx
      else HingeClamp finger_idx bone_idx True)"

subsection \<open>The joints a solve emits\<close>

text \<open>The output loop emits the bone \<open>(finger_idx, bone_idx)\<close> unless the macro
  continues or the bone is the thumb's bone 0.\<close>

definition emits :: "externals \<Rightarrow> nat \<times> nat \<Rightarrow> bool" where
  "emits ext fb = (case fb of (finger_idx, bone_idx) \<Rightarrow>
      \<not> hidden_thumb ext finger_idx bone_idx \<and> \<not> (finger_idx = 0 \<and> bone_idx = 0))"

definition emitted_bones :: "externals \<Rightarrow> (nat \<times> nat) list" where
  "emitted_bones ext = filter (emits ext) (finger_bone_indices 0)"

text \<open>The joint numbers written by a solve: the wrist, the palm, and one consecutive
  number from \<^verbatim>\<open>XRT_HAND_JOINT_THUMB_METACARPAL\<close> on for every emitted bone.\<close>

definition emitted_joints :: "externals \<Rightarrow> nat set" where
  "emitted_joints ext =
     {XRT_HAND_JOINT_WRIST, XRT_HAND_JOINT_PALM}
     \<union> {XRT_HAND_JOINT_THUMB_METACARPAL ..<
          XRT_HAND_JOINT_THUMB_METACARPAL + length (emitted_bones ext)}"

definition joint_flags :: "xrt_hand_joint_set \<Rightarrow> nat \<Rightarrow> xrt_space_relation_flags set" where
  "joint_flags s idx = relation_flags (hand_joint_set_default s idx)"

definition joint_position :: "xrt_hand_joint_set \<Rightarrow> nat \<Rightarrow> xrt_vec3" where
  "joint_position s idx = position (pose (hand_joint_set_default s idx))"

definition mirror_x :: "xrt_vec3 \<Rightarrow> xrt_vec3" where
  "mirror_x p = Vec3 (- vx p) (vy p) (vz p)"

definition mirrored_at :: "xrt_hand_joint_set \<Rightarrow> xrt_hand_joint_set \<Rightarrow> nat \<Rightarrow> bool" where
  "mirrored_at l r j = (joint_position r j = mirror_x (joint_position l j))"

subsection \<open>A sample instance\<close>

text \<open>Modelled from the spec: the forward kinematics of the skeleton module, which is not
  among the sources. Every bone's world pose is its parent's world pose composed with the
  bone's relation, the wrist being the parent of each finger's bone 0.\<close>

fun chain_pose :: "kinematic_hand_4f \<Rightarrow> nat \<Rightarrow> nat \<Rightarrow> affine3" where
  "chain_pose h finger_idx 0 =
     affine_mul (wrist_relation h) (bone_relation (get_bone h finger_idx 0))"
| "chain_pose h finger_idx (Suc b) =
     affine_mul (chain_pose h finger_idx b) (bone_relation (get_bone h finger_idx (Suc b)))"

definition forward_kinematics :: "kinematic_hand_4f \<Rightarrow> kinematic_hand_4f" where
  "forward_kinematics h =
     h\<lparr> fingers := (\<lambda>finger_idx. (fingers h finger_idx)
          \<lparr> bones := (\<lambda>bone_idx. (get_bone h finger_idx bone_idx)
               \<lparr> world_pose := chain_pose h finger_idx bone_idx \<rparr>) \<rparr>) \<rparr>"

definition affine_Identity :: affine3 where
  "affine_Identity = \<lparr> linear = m3_Identity, translation = v3_Zero \<rparr>"

text \<open>An instance of what the sources leave open, to run the solver on concrete inputs:
  an alignment that returns the identity, the forward kinematics above, a fixed singular
  vector, the linear part as the rotation of a pose, the thumb's bone 0 hidden, and a
  hand that a division by zero leaves as it was.\<close>

definition sample_externals :: externals where
  "sample_externals =
     \<lparr> umeyama = (\<lambda>src dst. affine_Identity),
       statics_init_world_poses = forward_kinematics,
       svd_null_axis = (\<lambda>v0 v1. UnitY),
       affine_rotation = linear,
       hidden_thumb = (\<lambda>finger_idx bone_idx. finger_idx = 0 \<and> bone_idx = 0),
       non_finite_hand = (\<lambda>hand. hand) \<rparr>"

text \<open>A hand at rest (every relation the identity, bone \<open>b\<close> of finger \<open>f\<close> tracking point
  \<open>4 f + b\<close>), an empty joint set and 21 points on a line.\<close>

definition rest_hand :: kinematic_hand_4f where
  "rest_hand =
     \<lparr> wrist_relation = affine_Identity,
       fingers = (\<lambda>finger_idx.
         \<lparr> bones = (\<lambda>bone_idx. \<lparr> bone_relation = affine_Identity, world_pose = affine_Identity,
                                  keypoint_idx_21 = 4 * finger_idx + bone_idx \<rparr>) \<rparr>),
       t_jts = (\<lambda>i. v3_Zero),
       t_jts_as_mat = (\<lambda>i. v3_Zero),
       kinematic = (\<lambda>i. v3_Zero) \<rparr>"

definition empty_joint_set :: xrt_hand_joint_set where
  "empty_joint_set =
     \<lparr> hand_joint_set_default =
         (\<lambda>idx. \<lparr> relation_flags = {}, pose = \<lparr> orientation = Quat 1 0 0 0, position = v3_Zero \<rparr> \<rparr>),
       is_active = False \<rparr>"

definition sample_points :: "nat \<Rightarrow> xrt_vec3" where
  "sample_points i = Vec3 (real i) 1 2"

definition sample_memory :: frame_memory where
  "sample_memory =
     \<lparr> model_joints_3d = sample_points, hand = rest_hand, out_set = empty_joint_set \<rparr>"

subsection \<open>Rotations and angles used below\<close>

text \<open>The matrix of the rotation that \<open>setFromTwoVectors a b\<close> builds from two unit
  vectors that are not nearly opposite: with \<open>c\<close> their inner product and \<open>(x, y, z)\<close> their
  cross product, the rotation about the cross product that takes \<open>a\<close> to \<open>b\<close>.\<close>

fun arc_matrix :: "vec3 \<Rightarrow> vec3 \<Rightarrow> mat3" where
  "arc_matrix (Vec3 a1 a2 a3) (Vec3 b1 b2 b3) =
     (let c = b1 * a1 + b2 * a2 + b3 * a3;
          x = a2 * b3 - a3 * b2; y = a3 * b1 - a1 * b3; z = a1 * b2 - a2 * b1
      in Mat3 (1 - (y * y + z * z) / (1 + c)) (x * y / (1 + c) - z) (x * z / (1 + c) + y)
              (x * y / (1 + c) + z) (1 - (x * x + z * z) / (1 + c)) (y * z / (1 + c) - x)
              (x * z / (1 + c) - y) (y * z / (1 + c) + x) (1 - (x * x + y * y) / (1 + c)))"

text \<open>The distance between two angles of the interval from \<open>-pi\<close> to \<open>pi\<close> on the circle:
  the shorter of the direct way and the way across the wrap at \<open>pi\<close>.\<close>

definition wrap_distance :: "real \<Rightarrow> real \<Rightarrow> real" where
  "wrap_distance a b = min \<bar>a - b\<bar> (2 * pi - \<bar>a - b\<bar>)"

text \<open>The rotations about X by 90 degrees and by -135 degrees.\<close>

definition quarter_turn_x :: mat3 where
  "quarter_turn_x = Mat3 1 0 0  0 0 (- 1)  0 1 0"

definition three_eighths_turn_back_x :: mat3 where
  "three_eighths_turn_back_x =
     Mat3 1 0 0
          0 (- (sqrt 2 / 2)) (sqrt 2 / 2)
          0 (- (sqrt 2 / 2)) (- (sqrt 2 / 2))"

text \<open>A hand whose bones 3 are bent by 90 degrees about X and whose bones 4 lie one unit
  along X from them, with every target point at (0, 0, 1). Its world poses are those the
  forward kinematics gives its relations.\<close>

definition bent_hand :: kinematic_hand_4f where
  "bent_hand =
     rest_hand\<lparr>
       fingers := (\<lambda>finger_idx.
         \<lparr> bones = (\<lambda>bone_idx.
             if bone_idx = 3 then
               \<lparr> bone_relation = \<lparr> linear = quarter_turn_x, translation = v3_Zero \<rparr>,
                 world_pose = \<lparr> linear = quarter_turn_x, translation = v3_Zero \<rparr>,
                 keypoint_idx_21 = 4 * finger_idx + bone_idx \<rparr>
             else if bone_idx = 4 then
               \<lparr> bone_relation = \<lparr> linear = m3_Identity, translation = Vec3 1 0 0 \<rparr>,
                 world_pose = \<lparr> linear = quarter_turn_x, translation = Vec3 1 0 0 \<rparr>,
                 keypoint_idx_21 = 4 * finger_idx + bone_idx \<rparr>
             else
               \<lparr> bone_relation = affine_Identity, world_pose = affine_Identity,
                 keypoint_idx_21 = 4 * finger_idx + bone_idx \<rparr>) \<rparr>),
       t_jts := (\<lambda>i. Vec3 0 0 1) \<rparr>"

text \<open>A rotation that twists by 90 degrees about its own swung forward axis
  (8/9, 4/9, -1/9), the matrix that \<^verbatim>\<open>clamp_proximals\<close> makes of it with a twist limit of 90
  degrees and the tangent limits -4/3, 4/3, -4 and 4, and the twist of that result.\<close>

definition twisted_swing :: mat3 where
  "twisted_swing =
     Mat3 (16 / 45) (13 / 45) (- (8 / 9))
          (- (37 / 45)) (- (16 / 45)) (- (4 / 9))
          (- (4 / 9)) (8 / 9) (1 / 9)"

definition twisted_swing_clamped :: mat3 where
  "twisted_swing_clamped =
     Mat3 (757 / 1053) (308 / 1053) (- (664 / 1053))
          (- (76 / 1053)) (- (917 / 1053)) (- (512 / 1053))
          (- (56 / 81)) (32 / 81) (- (49 / 81))"

definition twisted_swing_clamped_twist :: mat3 where
  "twisted_swing_clamped_twist =
     Mat3 (265787 / 1601613) (- (214412 / 1601613)) (120368 / 123201)
          (1574284 / 1601613) (- (91717 / 1601613)) (- (21536 / 123201))
          (752 / 9477) (9376 / 9477) (89 / 729)"



definition quat_squaredNorm :: "quat \<Rightarrow> real" where
  "quat_squaredNorm q = qw q * qw q + qx q * qx q + qy q * qy q + qz q * qz q"

fun m3_transpose :: "mat3 \<Rightarrow> mat3" where
  "m3_transpose (Mat3 a b c  d e f  g h i) = Mat3 a d g  b e h  c f i"

text \<open>A proper rotation: orthonormal, with determinant 1.\<close>

definition is_rotation :: "mat3 \<Rightarrow> bool" where
  "is_rotation m = (m3_mul (m3_transpose m) m = m3_Identity \<and> m3_determinant m = 1)"

section \<open>Properties\<close>

subsection \<open>The schedule of one finger\<close>

lemma upt_0_4: "[0..<4] = [0, 1, 2, 3]"
  by (simp add: upt_rec)

text \<open>
  C1, as the spec states it: in \<^verbatim>\<open>do_it_for_finger\<close> bone 0 is limited by SwingTwistClamp
  and bones 1, 2 and 3 by HingeClamp with an angle range. This fails: for finger 1 (and
  every other finger) the limiter of bone 1 is SwingTwistClamp.
\<close>

theorem C1_spec_schedule_fails:
  "map component_of (do_it_for_finger_calls 1) \<noteq> finger_schedule spec_limiter 1"
  by (simp add: do_it_for_finger_calls_def finger_schedule_def spec_limiter_def upt_0_4
      clamp_proximals_default_def)

text \<open>
  C1, amended: for every finger the bones 0 to 3 are processed in order, each with
  BoneRotationEstimator, then its limiter, then the forward-kinematics recompute; the
  limiter is SwingTwistClamp for bones 0 and 1 and HingeClamp with the angle range from
  -90 to 10 degrees for bones 2 and 3. After the thumb's calls, every pass of the optimizer
  loop runs this schedule for the fingers 1, 2, 3 and 4 in that order.
\<close>

theorem C1_finger_schedule:
  "map component_of (do_it_for_finger_calls finger_idx) = finger_schedule source_limiter finger_idx
   \<and> filter (\<lambda>c. component_of c = HingeClamp finger_idx 2 True
                 \<or> component_of c = HingeClamp finger_idx 3 True) (do_it_for_finger_calls finger_idx)
       = [Clamp_to_x_axis finger_idx 2 True (rad (- 90)) (rad 10),
          Clamp_to_x_axis finger_idx 3 True (rad (- 90)) (rad 10)]
   \<and> map component_of (drop (length optimize_thumb_calls) optimize_iteration_calls)
       = concat (map (finger_schedule source_limiter) [1, 2, 3, 4])"
  by (simp add: do_it_for_finger_calls_def finger_schedule_def source_limiter_def upt_0_4
      clamp_proximals_default_def optimize_iteration_calls_def)


subsection \<open>The output of a solve\<close>

lemma upt_0_5: "[0..<5] = [0, 1, 2, 3, 4]"
  by (simp add: upt_rec)

lemma make_joint_flags:
  "joint_flags (make_joint_at_matrix ext idx p out hand_idx) j =
     (if j = idx then all_valid_tracked else joint_flags out j)"
  by (simp add: make_joint_at_matrix_def make_joint_at_matrix_left_hand_def
      make_joint_at_matrix_right_hand_def joint_flags_def Let_def)

lemma make_joint_position:
  "joint_position (make_joint_at_matrix ext idx p out hand_idx) j =
     (if j = idx then (if hand_idx = 0 then translation p else mirror_x (translation p))
      else joint_position out j)"
  by (simp add: make_joint_at_matrix_def make_joint_at_matrix_left_hand_def
      make_joint_at_matrix_right_hand_def joint_position_def Let_def mirror_x_def)

lemma emit_bone_step:
  "emit_bone ext h hand_idx (start, out) fb =
     (if emits ext fb
      then (Suc start,
            make_joint_at_matrix ext start (world_pose (get_bone h (fst fb) (snd fb))) out hand_idx)
      else (start, out))"
  by (cases fb) (simp add: emit_bone_def emits_def)

lemma emit_fold_flags:
  "joint_flags (snd (foldl (emit_bone ext h hand_idx) (start, out) xs)) j =
     (if start \<le> j \<and> j < start + length (filter (emits ext) xs) then all_valid_tracked
      else joint_flags out j)"
proof (induction xs arbitrary: start out)
  case Nil
  then show ?case by auto
next
  case (Cons a xs)
  show ?case
  proof (cases "emits ext a")
    case True
    then show ?thesis
      using Cons[of "Suc start"
          "make_joint_at_matrix ext start (world_pose (get_bone h (fst a) (snd a))) out hand_idx"]
      by (auto simp: emit_bone_step make_joint_flags)
  next
    case False
    then show ?thesis using Cons[of start out] by (simp add: emit_bone_step)
  qed
qed

lemma emit_fold_mirror:
  "mirrored_at (snd (foldl (emit_bone ext h 0) (start, outl) xs))
               (snd (foldl (emit_bone ext h 1) (start, outr) xs)) j =
     (if start \<le> j \<and> j < start + length (filter (emits ext) xs) then True
      else mirrored_at outl outr j)"
proof (induction xs arbitrary: start outl outr)
  case Nil
  then show ?case by auto
next
  case (Cons a xs)
  show ?case
  proof (cases "emits ext a")
    case True
    then show ?thesis
      using Cons[of "Suc start"
          "make_joint_at_matrix ext start (world_pose (get_bone h (fst a) (snd a))) outl 0"
          "make_joint_at_matrix ext start (world_pose (get_bone h (fst a) (snd a))) outr 1"]
      by (auto simp: emit_bone_step make_joint_position mirrored_at_def)
  next
    case False
    then show ?thesis using Cons[of start outl outr] by (simp add: emit_bone_step)
  qed
qed

lemma sample_emitted_count: "length (emitted_bones sample_externals) = 24"
  by (simp add: emitted_bones_def finger_bone_indices_def emits_def sample_externals_def upt_0_5)

lemma sample_emits_25: "25 \<in> emitted_joints sample_externals"
  by (simp add: emitted_joints_def sample_emitted_count XRT_HAND_JOINT_THUMB_METACARPAL_def)

text \<open>
  C8: for every array of points, every hand and joint set handed in and either
  handedness, \<^verbatim>\<open>optimize_new_frame\<close> returns (it is a total function with no error
  value), marks the joint set active, and gives every joint it emits the four flags
  orientation valid, orientation tracked, position valid and position tracked.
\<close>

theorem C8_solve_always_emits:
  "is_active (out_set (optimize_new_frame ext mem hand_idx))
   \<and> (\<forall>idx \<in> emitted_joints ext.
        joint_flags (out_set (optimize_new_frame ext mem hand_idx)) idx = all_valid_tracked)"
proof -
  have 1: "is_active (out_set (optimize_new_frame ext mem hand_idx))"
    by (simp add: optimize_new_frame_def Let_def split: prod.splits)
  have 2: "joint_flags (out_set (optimize_new_frame ext mem hand_idx)) idx = all_valid_tracked"
    if "idx \<in> emitted_joints ext" for idx
  proof -
    let ?h1 = "intake (model_joints_3d mem) hand_idx (hand mem)"
    let ?h = "case optimize ext ?h1 of Some h \<Rightarrow> h | None \<Rightarrow> non_finite_hand ext ?h1"
    let ?o1 = "make_joint_at_matrix ext XRT_HAND_JOINT_WRIST (wrist_relation ?h) (out_set mem) hand_idx"
    let ?o2 = "make_joint_at_matrix ext XRT_HAND_JOINT_PALM (palm_relation_of ?h) ?o1 hand_idx"
    let ?r = "foldl (emit_bone ext ?h hand_idx) (XRT_HAND_JOINT_THUMB_METACARPAL, ?o2)
                (finger_bone_indices 0)"
    have "joint_flags (out_set (optimize_new_frame ext mem hand_idx)) idx = joint_flags (snd ?r) idx"
      by (simp add: optimize_new_frame_def Let_def joint_flags_def split: prod.splits)
    also have "\<dots> = all_valid_tracked"
      using that
      by (auto simp: emit_fold_flags make_joint_flags emitted_joints_def emitted_bones_def)
    finally show ?thesis .
  qed
  from 1 2 show ?thesis by blast
qed

theorem C8_solve_always_emits_witness:
  "25 \<in> emitted_joints sample_externals
   \<and> is_active (out_set (optimize_new_frame sample_externals sample_memory 0))
   \<and> joint_flags (out_set (optimize_new_frame sample_externals sample_memory 0)) 25
       = all_valid_tracked"
  using C8_solve_always_emits[where ext = sample_externals and mem = sample_memory and hand_idx = 0]
    sample_emits_25
  by blast

lemma intake_mirror: "intake (\<lambda>i. mirror_x (P i)) 1 h = intake P 0 h"
proof -
  have "intake_point (\<lambda>i. mirror_x (P i)) 1 = intake_point P 0"
    by (intro ext) (simp add: intake_point_def mirror_x_def Let_def)
  then show ?thesis by (simp add: intake_def)
qed

text \<open>
  C9: from the same hand and joint set, a left-hand solve (handedness 0) on the points
  \<open>P\<close> and a right-hand solve (handedness 1) on the X-mirrored points emit joint positions
  that are X-mirror images of each other, at every emitted joint. In this model of real
  numbers the mirror image is exact.
\<close>

theorem C9_mirror_symmetry:
  "\<forall>idx \<in> emitted_joints ext.
     joint_position
       (out_set (optimize_new_frame ext (mem\<lparr> model_joints_3d := (\<lambda>i. mirror_x (P i)) \<rparr>) 1)) idx
     = mirror_x (joint_position
         (out_set (optimize_new_frame ext (mem\<lparr> model_joints_3d := P \<rparr>) 0)) idx)"
proof
  fix idx assume idx: "idx \<in> emitted_joints ext"
  let ?h1 = "intake P 0 (hand mem)"
  let ?h = "case optimize ext ?h1 of Some h \<Rightarrow> h | None \<Rightarrow> non_finite_hand ext ?h1"
  let ?l1 = "make_joint_at_matrix ext XRT_HAND_JOINT_WRIST (wrist_relation ?h) (out_set mem) 0"
  let ?l2 = "make_joint_at_matrix ext XRT_HAND_JOINT_PALM (palm_relation_of ?h) ?l1 0"
  let ?r1 = "make_joint_at_matrix ext XRT_HAND_JOINT_WRIST (wrist_relation ?h) (out_set mem) 1"
  let ?r2 = "make_joint_at_matrix ext XRT_HAND_JOINT_PALM (palm_relation_of ?h) ?r1 1"
  let ?L = "foldl (emit_bone ext ?h 0) (XRT_HAND_JOINT_THUMB_METACARPAL, ?l2) (finger_bone_indices 0)"
  let ?R = "foldl (emit_bone ext ?h 1) (XRT_HAND_JOINT_THUMB_METACARPAL, ?r2) (finger_bone_indices 0)"
  have l: "joint_position (out_set (optimize_new_frame ext (mem\<lparr> model_joints_3d := P \<rparr>) 0)) idx
            = joint_position (snd ?L) idx"
    by (simp add: optimize_new_frame_def Let_def joint_position_def split: prod.splits)
  have r: "joint_position
             (out_set (optimize_new_frame ext (mem\<lparr> model_joints_3d := (\<lambda>i. mirror_x (P i)) \<rparr>) 1)) idx
            = joint_position (snd ?R) idx"
    by (simp add: optimize_new_frame_def Let_def joint_position_def intake_mirror split: prod.splits)
  have base: "mirrored_at ?l2 ?r2 j" if "j = XRT_HAND_JOINT_WRIST \<or> j = XRT_HAND_JOINT_PALM" for j
    using that by (auto simp: mirrored_at_def make_joint_position)
  have "mirrored_at (snd ?L) (snd ?R) idx"
    using idx base[of idx]
    by (auto simp: emit_fold_mirror emitted_joints_def emitted_bones_def)
  then show "joint_position
       (out_set (optimize_new_frame ext (mem\<lparr> model_joints_3d := (\<lambda>i. mirror_x (P i)) \<rparr>) 1)) idx
     = mirror_x (joint_position
         (out_set (optimize_new_frame ext (mem\<lparr> model_joints_3d := P \<rparr>) 0)) idx)"
    by (simp add: l r mirrored_at_def)
qed

theorem C9_mirror_symmetry_witness:
  "25 \<in> emitted_joints sample_externals
   \<and> joint_position (out_set (optimize_new_frame sample_externals
        (sample_memory\<lparr> model_joints_3d := (\<lambda>i. mirror_x (sample_points i)) \<rparr>) 1)) 25
     = mirror_x (joint_position (out_set (optimize_new_frame sample_externals
        (sample_memory\<lparr> model_joints_3d := sample_points \<rparr>) 0)) 25)"
  using C9_mirror_symmetry[where ext = sample_externals and mem = sample_memory and P = sample_points]
    sample_emits_25
  by blast

text \<open>
  C10: the array of points handed to \<^verbatim>\<open>optimize_new_frame\<close> is the same after the call
  as before it, for either handedness; the X negation for the right hand is written to
  the hand's own copy. The array, the hand and the joint set are three separate objects.
\<close>

theorem C10_input_points_unchanged:
  "model_joints_3d (optimize_new_frame ext mem hand_idx) = model_joints_3d mem"
  by (simp add: optimize_new_frame_def Let_def split: prod.splits)

subsection \<open>The rotation between two vectors\<close>

lemma two_vectors_matrix:
  assumes s: "s * s = 2 * (1 + c)" and c: "1 + c \<noteq> 0"
  shows "toRotationMatrix (Quat (s * (1 / 2)) (1 / s * x) (1 / s * y) (1 / s * z)) =
         Mat3 (1 - (y * y + z * z) / (1 + c)) (x * y / (1 + c) - z) (x * z / (1 + c) + y)
              (x * y / (1 + c) + z) (1 - (x * x + z * z) / (1 + c)) (y * z / (1 + c) - x)
              (x * z / (1 + c) - y) (y * z / (1 + c) + x) (1 - (x * x + y * y) / (1 + c))"
proof -
  have s0: "s \<noteq> 0" using s c by auto
  have k: "2 * (p / s) * (q / s) = p * q / (1 + c)" for p q
  proof -
    have "2 * (p / s) * (q / s) = 2 * (p * q) / (s * s)" by simp
    also have "\<dots> = 2 * (p * q) / (2 * (1 + c))" by (simp only: s)
    also have "\<dots> = p * q / (1 + c)" by (rule mult_divide_mult_cancel_left) simp
    finally show ?thesis .
  qed
  show ?thesis
    using s0 k by (simp add: Let_def add_divide_distrib)
qed

lemma v3_normalized_unit: "v3_squaredNorm v = 1 \<Longrightarrow> v3_normalized v = v"
  by (cases v) (simp add: v3_normalized_def)

lemma v3_normalized_of_norm:
  assumes "v3_squaredNorm v = r * r" and "0 < r"
  shows "v3_normalized v = v3_div v r"
proof -
  have "sqrt (r * r) = r" using assms(2) by simp
  then show ?thesis using assms by (simp add: v3_normalized_def Let_def)
qed

lemma setFromTwoVectors_generic:
  assumes a: "v3_squaredNorm a = 1" and b: "v3_squaredNorm b = 1"
      and g: "- 1 + dummy_precision \<le> v3_dot b a"
  shows "toRotationMatrix (setFromTwoVectors nax a b) = arc_matrix a b"
proof -
  obtain a1 a2 a3 where A: "a = Vec3 a1 a2 a3" by (cases a)
  obtain b1 b2 b3 where B: "b = Vec3 b1 b2 b3" by (cases b)
  define c where "c = b1 * a1 + b2 * a2 + b3 * a3"
  have cpos: "0 < 1 + c" using g by (simp add: A B c_def dummy_precision_def)
  define s where "s = sqrt ((1 + c) * 2)"
  have ss: "s * s = 2 * (1 + c)" using cpos by (simp add: s_def)
  have q: "setFromTwoVectors nax a b =
        Quat (s * (1 / 2)) (1 / s * (a2 * b3 - a3 * b2)) (1 / s * (a3 * b1 - a1 * b3))
          (1 / s * (a1 * b2 - a2 * b1))"
    using g by (simp add: setFromTwoVectors_def v3_normalized_unit[OF a, unfolded A]
        v3_normalized_unit[OF b, unfolded B] Let_def A B c_def s_def)
  show ?thesis
    unfolding q using two_vectors_matrix[OF ss, of "a2 * b3 - a3 * b2" "a3 * b1 - a1 * b3" "a1 * b2 - a2 * b1"] cpos
    by (simp add: A B c_def Let_def)
qed


lemma rotate_onto:
  fixes a1 a2 a3 b1 b2 b3 :: real
  assumes a: "a1 * a1 + a2 * a2 + a3 * a3 = 1"
      and b: "b1 * b1 + b2 * b2 + b3 * b3 = 1"
      and c: "c = b1 * a1 + b2 * a2 + b3 * a3"
      and c1: "1 + c \<noteq> 0"
      and x: "x = a2 * b3 - a3 * b2" and y: "y = a3 * b1 - a1 * b3" and z: "z = a1 * b2 - a2 * b1"
  shows "(1 - (y * y + z * z) / (1 + c)) * a1 + (x * y / (1 + c) - z) * a2 + (x * z / (1 + c) + y) * a3 = b1"
    and "(x * y / (1 + c) + z) * a1 + (1 - (x * x + z * z) / (1 + c)) * a2 + (y * z / (1 + c) - x) * a3 = b2"
    and "(x * z / (1 + c) - y) * a1 + (y * z / (1 + c) + x) * a2 + (1 - (x * x + y * y) / (1 + c)) * a3 = b3"
proof -
  have 1: "((1 + c) - (y * y + z * z)) * a1 + (x * y - z * (1 + c)) * a2 + (x * z + y * (1 + c)) * a3 = b1 * (1 + c)"
    using a b unfolding c x y z by algebra
  have 2: "(x * y + z * (1 + c)) * a1 + ((1 + c) - (x * x + z * z)) * a2 + (y * z - x * (1 + c)) * a3 = b2 * (1 + c)"
    using a b unfolding c x y z by algebra
  have 3: "(x * z - y * (1 + c)) * a1 + (y * z + x * (1 + c)) * a2 + ((1 + c) - (x * x + y * y)) * a3 = b3 * (1 + c)"
    using a b unfolding c x y z by algebra
  have div1: "(1 - p / d) * u + (q / d - r) * v + (t / d + w) * e
        = ((d - p) * u + (q - r * d) * v + (t + w * d) * e) / d" if "d \<noteq> 0" for p q r t u v w e d :: real
    using that by (simp add: field_simps)
  have div2: "(q / d + r) * u + (1 - p / d) * v + (t / d - w) * e
        = ((q + r * d) * u + (d - p) * v + (t - w * d) * e) / d" if "d \<noteq> 0" for p q r t u v w e d :: real
    using that by (simp add: field_simps)
  have div3: "(q / d - r) * u + (t / d + w) * v + (1 - p / d) * e
        = ((q - r * d) * u + (t + w * d) * v + (d - p) * e) / d" if "d \<noteq> 0" for p q r t u v w e d :: real
    using that by (simp add: field_simps)
  show "(1 - (y * y + z * z) / (1 + c)) * a1 + (x * y / (1 + c) - z) * a2 + (x * z / (1 + c) + y) * a3 = b1"
    unfolding div1[OF c1] 1 using c1 by simp
  show "(x * y / (1 + c) + z) * a1 + (1 - (x * x + z * z) / (1 + c)) * a2 + (y * z / (1 + c) - x) * a3 = b2"
    unfolding div2[OF c1] 2 using c1 by simp
  show "(x * z / (1 + c) - y) * a1 + (y * z / (1 + c) + x) * a2 + (1 - (x * x + y * y) / (1 + c)) * a3 = b3"
    unfolding div3[OF c1] 3 using c1 by simp
qed

lemma arc_matrix_maps:
  assumes a: "v3_squaredNorm a = 1" and b: "v3_squaredNorm b = 1" and c: "1 + v3_dot b a \<noteq> 0"
  shows "m3_vec (arc_matrix a b) a = b"
proof -
  obtain a1 a2 a3 where A: "a = Vec3 a1 a2 a3" by (cases a)
  obtain b1 b2 b3 where B: "b = Vec3 b1 b2 b3" by (cases b)
  have a': "a1 * a1 + a2 * a2 + a3 * a3 = 1" using a by (simp add: A v3_squaredNorm_def)
  have b': "b1 * b1 + b2 * b2 + b3 * b3 = 1" using b by (simp add: B v3_squaredNorm_def)
  have c': "1 + (b1 * a1 + b2 * a2 + b3 * a3) \<noteq> 0" using c by (simp add: A B)
  show ?thesis
    using rotate_onto[OF a' b' refl c' refl refl refl]
    by (simp add: A B Let_def)
qed

lemma arc_matrix_axis: "m3_vec (arc_matrix a b) (v3_cross a b) = v3_cross a b"
proof -
  obtain a1 a2 a3 where A: "a = Vec3 a1 a2 a3" by (cases a)
  obtain b1 b2 b3 where B: "b = Vec3 b1 b2 b3" by (cases b)
  have k: "(1 - (y * y + z * z) / d) * x + (x * y / d - z) * y + (x * z / d + y) * z = x"
    for x y z d :: real
    by (simp add: algebra_simps add_divide_distrib)
  have l: "(x * y / d + z) * x + (1 - (x * x + z * z) / d) * y + (y * z / d - x) * z = y"
    for x y z d :: real
    by (simp add: algebra_simps add_divide_distrib)
  have m: "(x * z / d - y) * x + (y * z / d + x) * y + (1 - (x * x + y * y) / d) * z = z"
    for x y z d :: real
    by (simp add: algebra_simps add_divide_distrib)
  show ?thesis
    by (simp add: A B Let_def k l m)
qed

lemma toRotationMatrix_is_rotation:
  assumes "quat_squaredNorm q = 1"
  shows "is_rotation (toRotationMatrix q)"
proof -
  obtain w x y z where q: "q = Quat w x y z" by (cases q)
  have u: "w * w + x * x + y * y + z * z = 1" using assms by (simp add: q quat_squaredNorm_def)
  have "m3_mul (m3_transpose (toRotationMatrix q)) (toRotationMatrix q) = m3_Identity"
    unfolding q m3_Identity_def toRotationMatrix.simps Let_def m3_transpose.simps m3_mul.simps mat3.inject
    using u by (intro conjI; algebra)
  moreover have "m3_determinant (toRotationMatrix q) = 1"
    unfolding q toRotationMatrix.simps Let_def m3_determinant.simps
    using u by algebra
  ultimately show ?thesis by (simp add: is_rotation_def)
qed

lemma lagrange:
  fixes a1 a2 a3 b1 b2 b3 :: real
  assumes "a1 * a1 + a2 * a2 + a3 * a3 = 1" and "b1 * b1 + b2 * b2 + b3 * b3 = 1"
  shows "(a2 * b3 - a3 * b2) * (a2 * b3 - a3 * b2) + (a3 * b1 - a1 * b3) * (a3 * b1 - a1 * b3)
       + (a1 * b2 - a2 * b1) * (a1 * b2 - a2 * b1)
       = (1 - (b1 * a1 + b2 * a2 + b3 * a3)) * (1 + (b1 * a1 + b2 * a2 + b3 * a3))"
  using assms by algebra

lemma arc_matrix_quat:
  assumes a: "v3_squaredNorm a = 1" and b: "v3_squaredNorm b = 1" and c: "0 < 1 + v3_dot b a"
  shows "\<exists>q. quat_squaredNorm q = 1 \<and> arc_matrix a b = toRotationMatrix q"
proof -
  obtain a1 a2 a3 where A: "a = Vec3 a1 a2 a3" by (cases a)
  obtain b1 b2 b3 where B: "b = Vec3 b1 b2 b3" by (cases b)
  define c where "c = b1 * a1 + b2 * a2 + b3 * a3"
  define x where "x = a2 * b3 - a3 * b2"
  define y where "y = a3 * b1 - a1 * b3"
  define z where "z = a1 * b2 - a2 * b1"
  have cpos: "0 < 1 + c" using assms(3) by (simp add: A B c_def)
  define s where "s = sqrt ((1 + c) * 2)"
  have ss: "s * s = 2 * (1 + c)" using cpos by (simp add: s_def)
  have s0: "s \<noteq> 0" using ss cpos by auto
  have c1: "1 + c \<noteq> 0" using cpos by simp
  have L: "x * x + y * y + z * z = (1 - c) * (1 + c)"
    unfolding x_def y_def z_def c_def
    by (rule lagrange) (use a b in \<open>simp_all add: A B v3_squaredNorm_def\<close>)
  let ?q = "Quat (s * (1 / 2)) (1 / s * x) (1 / s * y) (1 / s * z)"
  have "(1 / s * x) * (1 / s * x) + (1 / s * y) * (1 / s * y) + (1 / s * z) * (1 / s * z)
        = (x * x + y * y + z * z) / (s * s)"
    by (simp add: add_divide_distrib)
  also have "\<dots> = (1 - c) * (1 + c) / (2 * (1 + c))" by (simp only: L ss)
  also have "\<dots> = (1 - c) / 2" by (rule mult_divide_mult_cancel_right) (rule c1)
  finally have v: "(1 / s * x) * (1 / s * x) + (1 / s * y) * (1 / s * y) + (1 / s * z) * (1 / s * z)
        = (1 - c) / 2" .
  have "(s * (1 / 2)) * (s * (1 / 2)) = (s * s) / 4" by simp
  also have "\<dots> = (1 + c) / 2" by (simp add: ss)
  finally have w: "(s * (1 / 2)) * (s * (1 / 2)) = (1 + c) / 2" .
  have "(s * (1 / 2)) * (s * (1 / 2)) + (1 / s * x) * (1 / s * x) + (1 / s * y) * (1 / s * y)
          + (1 / s * z) * (1 / s * z)
        = (s * (1 / 2)) * (s * (1 / 2))
          + ((1 / s * x) * (1 / s * x) + (1 / s * y) * (1 / s * y) + (1 / s * z) * (1 / s * z))"
    by (simp only: add.assoc)
  also have "\<dots> = (1 + c) / 2 + (1 - c) / 2" by (simp only: v w)
  also have "\<dots> = 1" by (simp add: field_simps)
  finally have u: "quat_squaredNorm ?q = 1"
    unfolding quat_squaredNorm_def quat.sel .
  have "toRotationMatrix ?q = arc_matrix a b"
    using two_vectors_matrix[OF ss c1, of x y z]
    by (simp add: A B Let_def c_def x_def y_def z_def)
  with u show ?thesis by metis
qed

lemma arc_matrix_is_rotation:
  assumes "v3_squaredNorm a = 1" and "v3_squaredNorm b = 1" and "0 < 1 + v3_dot b a"
  shows "is_rotation (arc_matrix a b)"
  using arc_matrix_quat[OF assms] toRotationMatrix_is_rotation by auto

lemma arc_matrix_same: "arc_matrix a a = m3_Identity"
  by (cases a) (simp add: m3_Identity_def Let_def)

lemma v3_dot_commute: "v3_dot a b = v3_dot b a"
  by (cases a; cases b) (simp add: mult.commute)

lemma unit_dot_one:
  assumes "v3_squaredNorm a = 1" and "v3_squaredNorm b = 1" and "v3_dot b a = 1"
  shows "a = b"
proof -
  obtain a1 a2 a3 where A: "a = Vec3 a1 a2 a3" by (cases a)
  obtain b1 b2 b3 where B: "b = Vec3 b1 b2 b3" by (cases b)
  have "(a1 - b1) * (a1 - b1) + (a2 - b2) * (a2 - b2) + (a3 - b3) * (a3 - b3) = 0"
    using assms by (simp add: A B v3_squaredNorm_def algebra_simps)
  then have "a1 - b1 = 0 \<and> a2 - b2 = 0 \<and> a3 - b3 = 0"
    by (smt (verit) mult_eq_0_iff zero_le_square add_nonneg_eq_0_iff add_nonneg_nonneg)
  then show ?thesis by (simp add: A B)
qed

lemma arc_matrix_angle_axis:
  assumes a: "v3_squaredNorm a = 1" and b: "v3_squaredNorm b = 1" and c: "0 < 1 + v3_dot b a"
      and ne: "a \<noteq> b"
  shows "arc_matrix a b = angle_axis_matrix (arccos (v3_dot a b)) (v3_normalized (v3_cross a b))"
proof -
  obtain a1 a2 a3 where A: "a = Vec3 a1 a2 a3" by (cases a)
  obtain b1 b2 b3 where B: "b = Vec3 b1 b2 b3" by (cases b)
  define c where "c = b1 * a1 + b2 * a2 + b3 * a3"
  define x where "x = a2 * b3 - a3 * b2"
  define y where "y = a3 * b1 - a1 * b3"
  define z where "z = a1 * b2 - a2 * b1"
  have cpos: "0 < 1 + c" using assms(3) by (simp add: A B c_def)
  have L: "x * x + y * y + z * z = (1 - c) * (1 + c)"
    unfolding x_def y_def z_def c_def
    by (rule lagrange) (use a b in \<open>simp_all add: A B v3_squaredNorm_def\<close>)
  have "0 \<le> x * x + y * y + z * z" by simp
  then have "0 \<le> (1 - c) * (1 + c)" by (simp only: L)
  then have cle: "c \<le> 1" using cpos by (simp add: zero_le_mult_iff)
  have "c \<noteq> 1" using unit_dot_one[OF a b] ne by (auto simp: A B c_def)
  then have clt: "c < 1" using cle by simp
  define n where "n = sqrt ((1 - c) * (1 + c))"
  have n0: "0 < n" using clt cpos by (simp add: n_def)
  have nn: "n * n = (1 - c) * (1 + c)" using clt cpos by (simp add: n_def)
  have dab: "v3_dot a b = c" by (simp add: A B c_def mult.commute)
  have cr: "v3_cross a b = Vec3 x y z" by (simp add: A B x_def y_def z_def)
  have sq: "v3_squaredNorm (Vec3 x y z) = n * n" by (simp add: v3_squaredNorm_def L nn)
  have nrm: "v3_normalized (Vec3 x y z) = Vec3 (x / n) (y / n) (z / n)"
    using v3_normalized_of_norm[OF sq n0] by simp
  have co: "cos (arccos c) = c" using clt cpos by (intro cos_arccos) simp_all
  have si: "sin (arccos c) = n" using clt cpos by (simp add: sin_arccos n_def power2_eq_square algebra_simps)
  have k1: "(1 - c) * (p / n) * (r / n) = p * r / (1 + c)" for p r
  proof -
    have "(1 - c) * (p / n) * (r / n) = (1 - c) * (p * r) / (n * n)" by simp
    also have "\<dots> = (1 - c) * (p * r) / ((1 - c) * (1 + c))" by (simp only: nn)
    also have "\<dots> = p * r / (1 + c)" using clt by simp
    finally show ?thesis .
  qed
  have k2: "n * (p / n) = p" for p using n0 by simp
  have d1: "1 - (y * y + z * z) / (1 + c) = x * x / (1 + c) + c"
  proof -
    have "y * y + z * z = (1 - c) * (1 + c) - x * x" using L by simp
    then have "(y * y + z * z) / (1 + c) = (1 - c) - x * x / (1 + c)"
      using cpos by (simp add: field_simps)
    then show ?thesis by simp
  qed
  have d2: "1 - (x * x + z * z) / (1 + c) = y * y / (1 + c) + c"
  proof -
    have "x * x + z * z = (1 - c) * (1 + c) - y * y" using L by simp
    then have "(x * x + z * z) / (1 + c) = (1 - c) - y * y / (1 + c)"
      using cpos by (simp add: field_simps)
    then show ?thesis by simp
  qed
  have d3: "1 - (x * x + y * y) / (1 + c) = z * z / (1 + c) + c"
  proof -
    have "x * x + y * y = (1 - c) * (1 + c) - z * z" using L by simp
    then have "(x * x + y * y) / (1 + c) = (1 - c) - z * z / (1 + c)"
      using cpos by (simp add: field_simps)
    then show ?thesis by simp
  qed
  have lhs: "arc_matrix a b =
     Mat3 (x * x / (1 + c) + c) (x * y / (1 + c) - z) (x * z / (1 + c) + y)
          (x * y / (1 + c) + z) (y * y / (1 + c) + c) (y * z / (1 + c) - x)
          (x * z / (1 + c) - y) (y * z / (1 + c) + x) (z * z / (1 + c) + c)"
    unfolding A B arc_matrix.simps Let_def c_def[symmetric] x_def[symmetric] y_def[symmetric] z_def[symmetric]
    by (simp only: d1 d2 d3)
  have rhs: "angle_axis_matrix (arccos c) (Vec3 (x / n) (y / n) (z / n)) =
     Mat3 (x * x / (1 + c) + c) (x * y / (1 + c) - z) (x * z / (1 + c) + y)
          (x * y / (1 + c) + z) (y * y / (1 + c) + c) (y * z / (1 + c) - x)
          (x * z / (1 + c) - y) (y * z / (1 + c) + x) (z * z / (1 + c) + c)"
    unfolding angle_axis_matrix.simps Let_def co si k1 k2 by (rule refl)
  show ?thesis unfolding dab cr nrm lhs rhs by (rule refl)
qed

lemma setFromTwoVectors_same_unit:
  "v3_squaredNorm v = 1 \<Longrightarrow> toRotationMatrix (setFromTwoVectors nax v v) = m3_Identity"
  by (cases v) (simp add: setFromTwoVectors_def v3_normalized_def v3_squaredNorm_def Let_def
      dummy_precision_def m3_Identity_def)

lemma m3_mul_Identity: "m3_mul m3_Identity m = m"
  by (cases m) (simp add: m3_Identity_def)

lemma m3_vec_mul: "m3_vec (m3_mul A B) v = m3_vec A (m3_vec B v)"
  by (cases A; cases B; cases v) (simp add: algebra_simps)

subsection \<open>BoneRotationEstimator\<close>

lemma do_it_for_bone_linear:
  "linear (bone_relation (get_bone (do_it_for_bone ext h finger_idx bone_idx c) finger_idx bone_idx))
     = m3_mul (linear (bone_relation (get_bone h finger_idx bone_idx)))
              (bone_correction ext h finger_idx bone_idx)"
  by (simp add: do_it_for_bone_def set_bone_linear_def get_bone_def Let_def)

text \<open>
  C2, amended: \<^verbatim>\<open>do_it_for_bone\<close> multiplies the bone's local rotation on the right by
  the two-vector rotation of the normalized local-frame current direction \<open>k\<close> and target
  direction \<open>t\<close>, \<open>new = old * correction\<close>. Whenever both directions are unit vectors (the
  centroids are not at the bone's origin) and not within Eigen's tolerance of opposite,
  that correction is the shortest-arc rotation from \<open>k\<close> to \<open>t\<close>: a proper rotation that
  takes \<open>k\<close> to \<open>t\<close> and fixes their common normal, namely the identity when the two
  directions are equal and otherwise the rotation about their normalized cross product
  by the angle between them, the arc cosine of their inner product.
\<close>

theorem C2_bone_rotation_right_composed:
  "(let k = fst (bone_directions h finger_idx bone_idx);
        t = snd (bone_directions h finger_idx bone_idx);
        correction = bone_correction ext h finger_idx bone_idx
    in linear (bone_relation (get_bone (do_it_for_bone ext h finger_idx bone_idx c) finger_idx bone_idx))
         = m3_mul (linear (bone_relation (get_bone h finger_idx bone_idx))) correction
       \<and> (v3_squaredNorm k = 1 \<and> v3_squaredNorm t = 1 \<and> - 1 + dummy_precision \<le> v3_dot t k
            \<longrightarrow> is_rotation correction
                \<and> m3_vec correction k = t
                \<and> m3_vec correction (v3_cross k t) = v3_cross k t
                \<and> (k = t \<longrightarrow> correction = m3_Identity)
                \<and> (k \<noteq> t \<longrightarrow> correction
                      = angle_axis_matrix (arccos (v3_dot k t)) (v3_normalized (v3_cross k t)))))"
proof -
  let ?k = "fst (bone_directions h finger_idx bone_idx)"
  let ?t = "snd (bone_directions h finger_idx bone_idx)"
  let ?m = "bone_correction ext h finger_idx bone_idx"
  have bc: "?m = toRotationMatrix (setFromTwoVectors (svd_null_axis ext) ?k ?t)"
    by (simp add: bone_correction_def split: prod.splits)
  have "is_rotation ?m \<and> m3_vec ?m ?k = ?t \<and> m3_vec ?m (v3_cross ?k ?t) = v3_cross ?k ?t
        \<and> (?k = ?t \<longrightarrow> ?m = m3_Identity)
        \<and> (?k \<noteq> ?t \<longrightarrow> ?m = angle_axis_matrix (arccos (v3_dot ?k ?t)) (v3_normalized (v3_cross ?k ?t)))"
    if u: "v3_squaredNorm ?k = 1" "v3_squaredNorm ?t = 1" and g: "- 1 + dummy_precision \<le> v3_dot ?t ?k"
  proof -
    have nz: "1 + v3_dot ?t ?k \<noteq> 0" and pos: "0 < 1 + v3_dot ?t ?k"
      using g by (simp_all add: dummy_precision_def)
    have arc: "?m = arc_matrix ?k ?t"
      unfolding bc by (rule setFromTwoVectors_generic[OF u g])
    show ?thesis
      unfolding arc
      using arc_matrix_maps[OF u nz] arc_matrix_axis arc_matrix_is_rotation[OF u pos]
        arc_matrix_same arc_matrix_angle_axis[OF u pos]
      by simp
  qed
  then show ?thesis unfolding Let_def using do_it_for_bone_linear by blast
qed

lemma upt_4_5: "[4..<5] = [4]" by (simp add: upt_rec)

lemma bent_directions: "bone_directions bent_hand 1 3 = (Vec3 1 0 0, Vec3 0 1 0)"
  by (simp add: bone_directions_def children_sums_def upt_4_5 get_bone_def bent_hand_def
      affine_vec_def affine_inverse_def quarter_turn_x_def v3_normalized_def v3_squaredNorm_def
      map_vec3_def v3_Zero_def Let_def)

lemma bent_correction: "bone_correction ext bent_hand 1 3 = Mat3 0 (- 1) 0  1 0 0  0 0 1"
proof -
  have "bone_correction ext bent_hand 1 3 = arc_matrix (Vec3 1 0 0) (Vec3 0 1 0)"
    unfolding bone_correction_def bent_directions
    using setFromTwoVectors_generic[of "Vec3 1 0 0" "Vec3 0 1 0" "svd_null_axis ext"]
    by (simp add: v3_squaredNorm_def dummy_precision_def)
  then show ?thesis by (simp add: Let_def)
qed

text \<open>
  C2, as the spec states it, has the correction composed on the left,
  \<open>new = correction * old\<close>. On the bent hand, for bone 3 of finger 1, the correction is the
  rotation by 90 degrees about Z and the old rotation the one by 90 degrees about X; the
  new rotation is not their product in the order of the spec.
\<close>

theorem C2_left_composition_fails:
  "linear (bone_relation (get_bone (do_it_for_bone sample_externals bent_hand 1 3 True) 1 3))
     \<noteq> m3_mul (bone_correction sample_externals bent_hand 1 3)
              (linear (bone_relation (get_bone bent_hand 1 3)))"
  unfolding do_it_for_bone_linear bent_correction
  by (simp add: get_bone_def bent_hand_def quarter_turn_x_def)

theorem C2_bone_rotation_right_composed_witness:
  "v3_squaredNorm (Vec3 1 0 0) = 1 \<and> v3_squaredNorm (Vec3 0 1 0) = 1
   \<and> - 1 + dummy_precision \<le> v3_dot (Vec3 0 1 0) (Vec3 1 0 0)
   \<and> Vec3 1 0 0 \<noteq> Vec3 0 1 0
   \<and> bone_directions bent_hand 1 3 = (Vec3 1 0 0, Vec3 0 1 0)
   \<and> linear (bone_relation (get_bone (do_it_for_bone sample_externals bent_hand 1 3 True) 1 3))
       = m3_mul quarter_turn_x (Mat3 0 (- 1) 0  1 0 0  0 0 1)
   \<and> is_rotation (bone_correction sample_externals bent_hand 1 3)
   \<and> m3_vec (bone_correction sample_externals bent_hand 1 3) (Vec3 1 0 0) = Vec3 0 1 0
   \<and> bone_correction sample_externals bent_hand 1 3
       = angle_axis_matrix (arccos (v3_dot (Vec3 1 0 0) (Vec3 0 1 0)))
           (v3_normalized (v3_cross (Vec3 1 0 0) (Vec3 0 1 0)))"
proof -
  have h: "v3_squaredNorm (Vec3 1 0 0) = 1 \<and> v3_squaredNorm (Vec3 0 1 0) = 1
   \<and> - 1 + dummy_precision \<le> v3_dot (Vec3 0 1 0) (Vec3 1 0 0) \<and> Vec3 1 0 0 \<noteq> Vec3 0 1 0"
    by (simp add: v3_squaredNorm_def dummy_precision_def)
  have old: "linear (bone_relation (get_bone bent_hand 1 3)) = quarter_turn_x"
    by (simp add: get_bone_def bent_hand_def)
  have "linear (bone_relation (get_bone (do_it_for_bone sample_externals bent_hand 1 3 True) 1 3))
       = m3_mul quarter_turn_x (Mat3 0 (- 1) 0  1 0 0  0 0 1)"
    unfolding do_it_for_bone_linear bent_correction old by (rule refl)
  then show ?thesis
    using C2_bone_rotation_right_composed[where ext = sample_externals and h = bent_hand
        and finger_idx = 1 and bone_idx = 3 and c = True] h bent_directions
    unfolding Let_def bent_directions fst_conv snd_conv by blast
qed

subsection \<open>HingeClamp\<close>

lemma hinge_rotation_value_angle_axis:
  "hinge_rotation_value (angle_axis_matrix b (axes 0)) = atan2 (sin b) (cos b)"
  by (simp add: hinge_rotation_value_def axes_def UnitX_def UnitY_def Let_def)

lemma atan2_sin_cos_small:
  assumes "- (pi / 2) < b" and "b < pi / 2"
  shows "atan2 (sin b) (cos b) = b"
proof -
  from assms have c: "0 < cos b" by (rule cos_gt_zero_pi)
  have "arctan (sin b / cos b) = b"
    using arctan_tan[OF assms] by (simp add: tan_def)
  with c show ?thesis by (simp add: atan2_def)
qed

lemma atan2_neg_half: "atan2 (sin (- (pi / 2))) (cos (- (pi / 2))) = - (pi / 2)"
  by (simp add: atan2_def)

lemma hinge_bound_cases: "hinge_bound r mn mx = mn \<or> hinge_bound r mn mx = mx"
  by (simp add: hinge_bound_def Let_def split: prod.splits)

lemma get_set_bone_linear:
  "linear (bone_relation (get_bone (set_bone_linear h finger_idx bone_idx m) finger_idx bone_idx)) = m"
  by (simp add: set_bone_linear_def get_bone_def Let_def)

lemma clamp_to_x_axis_linear:
  "linear (bone_relation (get_bone (clamp_to_x_axis ext h finger_idx bone_idx ca mn mx) finger_idx bone_idx))
     = clamp_to_x_axis_rot ext (linear (bone_relation (get_bone h finger_idx bone_idx))) ca mn mx"
  by (simp add: clamp_to_x_axis_def get_set_bone_linear)

lemma hinge_bound_rot:
  "rad (- 90) \<le> hinge_rotation_value (clamp_to_x_axis_rot ext rot True (rad (- 90)) (rad 10))
   \<and> hinge_rotation_value (clamp_to_x_axis_rot ext rot True (rad (- 90)) (rad 10)) \<le> rad 10"
proof -
  let ?r1 = "hinge_correction ext rot"
  let ?v = "hinge_rotation_value ?r1"
  have lo: "hinge_rotation_value (angle_axis_matrix (rad (- 90)) (axes 0)) = rad (- 90)"
    using atan2_neg_half by (simp add: hinge_rotation_value_angle_axis rad_def)
  have "- (pi / 2) < rad 10" "rad 10 < pi / 2"
    using pi_gt_zero by (simp_all add: rad_def)
  then have hi: "hinge_rotation_value (angle_axis_matrix (rad 10) (axes 0)) = rad 10"
    by (simp add: hinge_rotation_value_angle_axis atan2_sin_cos_small)
  have le: "rad (- 90) \<le> rad 10" using pi_gt_zero by (simp add: rad_def)
  show ?thesis
  proof (cases "?v < rad 10 \<and> ?v > rad (- 90)")
    case True
    then show ?thesis by (simp add: clamp_to_x_axis_rot_def Let_def)
  next
    case False
    have "clamp_to_x_axis_rot ext rot True (rad (- 90)) (rad 10)
        = (if ?v < rad 10 \<and> ?v > rad (- 90) then ?r1
           else angle_axis_matrix (hinge_bound ?v (rad (- 90)) (rad 10)) (axes 0))"
      by (simp add: clamp_to_x_axis_rot_def Let_def)
    with False have "clamp_to_x_axis_rot ext rot True (rad (- 90)) (rad 10)
        = angle_axis_matrix (hinge_bound ?v (rad (- 90)) (rad 10)) (axes 0)"
      by presburger
    then show ?thesis
      using hinge_bound_cases[of ?v "rad (- 90)" "rad 10"] lo hi le by auto
  qed
qed

text \<open>
  C4: for every hand, every bone of it and every rotation that bone holds, after the call
  of \<^verbatim>\<open>clamp_to_x_axis\<close> on the bone with the clamp enabled and the range from -90 to 10
  degrees, the angle of the bone's local rotation about the locked axis, measured as the
  source measures it (the two-argument arctangent of the image of the Y axis), lies
  between -90 and 10 degrees. On the reals the bound holds without a tolerance, hence
  with every tolerance.
\<close>

theorem C4_hinge_bound:
  "rad (- 90) \<le> hinge_rotation_value (linear (bone_relation (get_bone
        (clamp_to_x_axis ext h finger_idx bone_idx True (rad (- 90)) (rad 10)) finger_idx bone_idx)))
   \<and> hinge_rotation_value (linear (bone_relation (get_bone
        (clamp_to_x_axis ext h finger_idx bone_idx True (rad (- 90)) (rad 10)) finger_idx bone_idx)))
       \<le> rad 10"
  unfolding clamp_to_x_axis_linear by (rule hinge_bound_rot)

subsection \<open>SwingTwistClamp\<close>

lemma tangent_divisor_negative: "vz (swung_forward rot) \<noteq> 0 \<Longrightarrow> tangent_divisor rot < 0"
  by (simp add: tangent_divisor_def guarded_forward_def)

text \<open>
  C5 states that the guard keeps the divisor of the tangent computation away from zero
  for every input rotation. The guard replaces a positive forward component only: for the
  rotation by 90 degrees about X the swung forward axis is (0, 1, 0), its forward
  component is zero, the guard does not fire and the divisor of line 350 is zero.
\<close>

theorem C5_divisor_zero_at_quarter_turn:
  "is_rotation quarter_turn_x
   \<and> swung_forward quarter_turn_x = Vec3 0 1 0
   \<and> tangent_divisor quarter_turn_x = 0"
  by (simp add: tangent_divisor_def guarded_forward_def swung_forward_def UnitZ_def
      quarter_turn_x_def is_rotation_def m3_Identity_def)

subsection \<open>The angle clamp of HingeClamp on a negative angle\<close>

lemma hinge_correction_fixed_axis:
  "m3_vec rot UnitX = UnitX \<Longrightarrow> hinge_correction ext rot = rot"
  by (simp add: hinge_correction_def axes_def Let_def v3_normalized_def v3_squaredNorm_def UnitX_def
      setFromTwoVectors_same_unit m3_mul_Identity)

lemma c3_value: "hinge_rotation_value three_eighths_turn_back_x = - (3 * pi / 4)"
proof -
  have "hinge_rotation_value three_eighths_turn_back_x = atan2 (- (sqrt 2 / 2)) (- (sqrt 2 / 2))"
    by (simp add: hinge_rotation_value_def three_eighths_turn_back_x_def axes_def UnitY_def Let_def)
  also have "\<dots> = arctan 1 - pi"
    by (simp add: atan2_def)
  also have "\<dots> = - (3 * pi / 4)" by (simp add: arctan_one)
  finally show ?thesis .
qed




text \<open>Every call of \<^verbatim>\<open>clamp_to_x_axis\<close> that the optimizer makes enables the clamp and
  passes the range from -90 to 10 degrees or the range from -90 to 40 degrees, and both
  are ranges of that kind.\<close>

lemma solver_hinge_ranges:
  assumes "Clamp_to_x_axis finger_idx bone_idx clamp_angle min_angle max_angle \<in> set optimize_calls"
  shows "clamp_angle \<and> min_angle = rad (- 90) \<and> (max_angle = rad 10 \<or> max_angle = rad 40)"
  using assms
  by (auto simp: optimize_calls_def optimize_iteration_calls_def optimize_thumb_calls_def
      do_it_for_finger_calls_def clamp_proximals_default_def)






text \<open>The condition on the range is needed: for the range from -45 to 157.5 degrees, which
  no call of the solver passes, the same rotation is set to the lower bound, 90 degrees
  away, whereas the upper bound is 67.5 degrees away across the wrap.\<close>

lemma hinge_bound_not_closest_for_other_range:
  "clamp_to_x_axis_rot ext three_eighths_turn_back_x True (- (pi / 4)) (7 * pi / 8)
       = angle_axis_matrix (- (pi / 4)) (axes 0)
   \<and> wrap_distance (- (3 * pi / 4)) (7 * pi / 8) < wrap_distance (- (3 * pi / 4)) (- (pi / 4))"
proof -
  have fx: "hinge_correction ext three_eighths_turn_back_x = three_eighths_turn_back_x"
    by (rule hinge_correction_fixed_axis) (simp add: three_eighths_turn_back_x_def UnitX_def)
  have w: "hinge_wrapped_values (- (3 * pi / 4)) = (11 * pi / 4, - (3 * pi / 4))"
    using pi_gt_zero by (simp add: hinge_wrapped_values_def)
  have b: "hinge_bound (- (3 * pi / 4)) (- (pi / 4)) (7 * pi / 8) = - (pi / 4)"
    using pi_gt_zero by (simp add: hinge_bound_def w)
  have out: "\<not> (- (3 * pi / 4) < 7 * pi / 8 \<and> - (3 * pi / 4) > - (pi / 4))"
    using pi_gt_zero by simp
  have c: "clamp_to_x_axis_rot ext three_eighths_turn_back_x True (- (pi / 4)) (7 * pi / 8)
       = angle_axis_matrix (- (pi / 4)) (axes 0)"
    using out by (simp add: clamp_to_x_axis_rot_def fx c3_value b Let_def)
  have d: "wrap_distance (- (3 * pi / 4)) (7 * pi / 8) < wrap_distance (- (3 * pi / 4)) (- (pi / 4))"
    using pi_gt_zero by (simp add: wrap_distance_def min_def abs_if)
  show ?thesis using c d by simp
qed


subsection \<open>The correction step of HingeClamp\<close>

text \<open>
  The part of C7 that the sources decide: on a matrix whose image of the X axis is a unit
  vector (every rotation) and not within Eigen's tolerance of the opposite of the X axis,
  the correction step of \<^verbatim>\<open>clamp_to_x_axis\<close> gives a matrix that maps the X axis to
  itself. Within that tolerance the correction depends on the singular vector that
  \<open>setFromTwoVectors\<close> takes from Eigen's SVD.
\<close>

theorem hinge_correction_locks_axis:
  assumes "v3_squaredNorm (m3_vec rot UnitX) = 1"
      and "- 1 + dummy_precision \<le> v3_dot UnitX (m3_vec rot UnitX)"
  shows "m3_vec (hinge_correction ext rot) UnitX = UnitX"
proof -
  let ?v = "m3_vec rot UnitX"
  have u: "v3_squaredNorm UnitX = 1" by (simp add: UnitX_def v3_squaredNorm_def)
  have nz: "1 + v3_dot UnitX ?v \<noteq> 0" using assms(2) by (simp add: dummy_precision_def)
  have "hinge_correction ext rot = m3_mul (arc_matrix ?v UnitX) rot"
    using setFromTwoVectors_generic[OF assms(1) u assms(2), of "svd_null_axis ext"]
    by (simp add: hinge_correction_def axes_def Let_def v3_normalized_unit[OF assms(1)])
  then show ?thesis
    using arc_matrix_maps[OF assms(1) u nz] by (simp add: m3_vec_mul)
qed

theorem hinge_correction_locks_axis_witness:
  "v3_squaredNorm (m3_vec (Mat3 0 (- 1) 0  1 0 0  0 0 1) UnitX) = 1
   \<and> - 1 + dummy_precision \<le> v3_dot UnitX (m3_vec (Mat3 0 (- 1) 0  1 0 0  0 0 1) UnitX)
   \<and> m3_vec (hinge_correction sample_externals (Mat3 0 (- 1) 0  1 0 0  0 0 1)) UnitX = UnitX"
proof -
  have a: "v3_squaredNorm (m3_vec (Mat3 0 (- 1) 0  1 0 0  0 0 1) UnitX) = 1"
    by (simp add: UnitX_def v3_squaredNorm_def)
  have b: "- 1 + dummy_precision \<le> v3_dot UnitX (m3_vec (Mat3 0 (- 1) 0  1 0 0  0 0 1) UnitX)"
    by (simp add: UnitX_def dummy_precision_def)
  from a b hinge_correction_locks_axis[OF a b, of sample_externals] show ?thesis by blast
qed

subsection \<open>The twist of SwingTwistClamp\<close>

lemma swing_of_generic:
  assumes u: "v3_squaredNorm (swung_forward rot) = 1"
      and g: "- 1 + dummy_precision \<le> - vz (swung_forward rot)"
  shows "swing_of ext rot = arc_matrix (Vec3 0 0 (- 1)) (swung_forward rot)"
proof -
  have z: "v3_squaredNorm (Vec3 0 0 (- 1)) = 1" by (simp add: v3_squaredNorm_def)
  have d: "- 1 + dummy_precision \<le> v3_dot (swung_forward rot) (Vec3 0 0 (- 1))"
    using g by (cases "swung_forward rot") simp
  show ?thesis
    using setFromTwoVectors_generic[OF z u d, of "svd_null_axis ext"]
    by (simp add: swing_of_def UnitZ_def)
qed

lemma ts_forward: "swung_forward twisted_swing = Vec3 (8 / 9) (4 / 9) (- (1 / 9))"
  by (simp add: swung_forward_def twisted_swing_def UnitZ_def)

lemma ts_swing: "swing_of ext twisted_swing =
    Mat3 (13 / 45) (- (16 / 45)) (- (8 / 9))
         (- (16 / 45)) (37 / 45) (- (4 / 9))
         (8 / 9) (4 / 9) (1 / 9)"
proof -
  have "swing_of ext twisted_swing = arc_matrix (Vec3 0 0 (- 1)) (swung_forward twisted_swing)"
    by (rule swing_of_generic) (simp_all add: ts_forward v3_squaredNorm_def dummy_precision_def)
  then show ?thesis by (simp add: ts_forward Let_def)
qed

lemma ts_twist: "twist_of ext twisted_swing =
    Mat3 (64 / 81) (41 / 81) (28 / 81)
         (23 / 81) (16 / 81) (- (76 / 81))
         (- (44 / 81)) (68 / 81) (1 / 81)"
  unfolding twist_of_def ts_swing by (simp add: twisted_swing_def Let_def)


lemma sqrt_half: "sqrt (1 / 2) = sqrt 2 / 2"
  by (rule real_sqrt_unique) (simp_all add: power2_eq_square)

lemma ts_quat: "quat_of_matrix (Mat3 (64 / 81) (41 / 81) (28 / 81)
         (23 / 81) (16 / 81) (- (76 / 81))
         (- (44 / 81)) (68 / 81) (1 / 81))
    = Quat (sqrt 2 / 2) (8 / 9 * (sqrt 2 / 2)) (4 / 9 * (sqrt 2 / 2)) (- (1 / 9) * (sqrt 2 / 2))"
proof -
  have d: "x / sqrt 2 = x * sqrt 2 / 2" for x :: real
    by (simp add: field_simps)
  show ?thesis
    by (simp add: quat_of_matrix_def Let_def d)
qed

lemma angle_axis_of_quat_pos:
  assumes "0 < w" and "v3_norm (Vec3 x y z) = n" and "n \<noteq> 0"
  shows "angle_axis_of_quat (Quat w x y z) = (2 * atan2 n w, Vec3 (x / n) (y / n) (z / n))"
  using assms by (simp add: angle_axis_of_quat_def Let_def)

lemma ts_aax: "angle_axis_of_quat (Quat (sqrt 2 / 2) (8 / 9 * (sqrt 2 / 2)) (4 / 9 * (sqrt 2 / 2)) (- (1 / 9) * (sqrt 2 / 2)))
   = (pi / 2, Vec3 (8 / 9) (4 / 9) (- (1 / 9)))"
proof -
  have n: "v3_norm (Vec3 (8 / 9 * (sqrt 2 / 2)) (4 / 9 * (sqrt 2 / 2)) (- (1 / 9) * (sqrt 2 / 2))) = sqrt 2 / 2"
  proof -
    have "v3_squaredNorm (Vec3 (8 / 9 * (sqrt 2 / 2)) (4 / 9 * (sqrt 2 / 2)) (- (1 / 9) * (sqrt 2 / 2))) = 1 / 2"
      by (simp add: v3_squaredNorm_def algebra_simps)
    then show ?thesis by (simp only: v3_norm_def sqrt_half)
  qed
  have a: "atan2 (sqrt 2 / 2) (sqrt 2 / 2) = pi / 4"
    by (simp add: atan2_def arctan_one)
  have p: "(0::real) < sqrt 2 / 2" and nz: "sqrt 2 / 2 \<noteq> (0::real)" by simp_all
  show ?thesis
    unfolding angle_axis_of_quat_pos[OF p n nz] a by simp
qed

lemma ts_twist_aax: "twist_aax_of ext twisted_swing = (pi / 2, Vec3 (8 / 9) (4 / 9) (- (1 / 9)))"
  unfolding twist_aax_of_def angle_axis_of_matrix_def ts_twist ts_quat ts_aax by (rule refl)


lemma ts_clamped_forward:
  "clamped_forward twisted_swing (- (4 / 3)) (4 / 3) (- 4) 4 = Some (Vec3 (4 / 3) 4 (- 1))"
  by (simp add: clamped_forward_def tangent_divisor_def guarded_forward_def ts_forward clamp_def Let_def)

lemma ts_direction: "v3_normalized (Vec3 (4 / 3) 4 (- 1)) = Vec3 (4 / 13) (12 / 13) (- (3 / 13))"
proof -
  have "v3_squaredNorm (Vec3 (4 / 3) 4 (- 1)) = (13 / 3) * (13 / 3)" by (simp add: v3_squaredNorm_def)
  then have "v3_normalized (Vec3 (4 / 3) 4 (- 1)) = v3_div (Vec3 (4 / 3) 4 (- 1)) (13 / 3)"
    by (rule v3_normalized_of_norm) simp
  then show ?thesis by simp
qed

lemma ts_simple:
  "toRotationMatrix (setFromTwoVectors nax (v3_neg UnitZ) (Vec3 (4 / 13) (12 / 13) (- (3 / 13))))
   = Mat3 (12 / 13) (- (3 / 13)) (- (4 / 13))
          (- (3 / 13)) (4 / 13) (- (12 / 13))
          (4 / 13) (12 / 13) (3 / 13)"
proof -
  have "toRotationMatrix (setFromTwoVectors nax (Vec3 0 0 (- 1)) (Vec3 (4 / 13) (12 / 13) (- (3 / 13))))
     = arc_matrix (Vec3 0 0 (- 1)) (Vec3 (4 / 13) (12 / 13) (- (3 / 13)))"
    by (rule setFromTwoVectors_generic) (simp_all add: v3_squaredNorm_def dummy_precision_def)
  then show ?thesis by (simp add: UnitZ_def Let_def)
qed

lemma ts_twist_matrix:
  "angle_axis_matrix (pi / 2) (Vec3 (8 / 9) (4 / 9) (- (1 / 9)))
   = Mat3 (64 / 81) (41 / 81) (28 / 81)
          (23 / 81) (16 / 81) (- (76 / 81))
          (- (44 / 81)) (68 / 81) (1 / 81)"
  by (simp add: Let_def)

lemma ts_clamp_angle: "clamp_twist_angle (pi / 2) (rad 90) = pi / 2"
  by (simp add: clamp_twist_angle_def rad_def)

lemma ts_clamp_proximals:
  "clamp_proximals_rot ext twisted_swing (rad 90) (- (4 / 3)) (4 / 3) (- 4) 4
     = Some twisted_swing_clamped"
  unfolding clamp_proximals_rot_def Let_def ts_twist_aax ts_clamped_forward ts_direction
    prod.case option.case ts_clamp_angle ts_simple ts_twist_matrix
  by (simp add: twisted_swing_clamped_def)


lemma ts_result_forward: "swung_forward twisted_swing_clamped = Vec3 (664 / 1053) (512 / 1053) (49 / 81)"
  by (simp add: swung_forward_def twisted_swing_clamped_def UnitZ_def)

lemma ts_result_swing: "swing_of ext twisted_swing_clamped =
    Mat3 (- (89 / 13689)) (- (10624 / 13689)) (- (664 / 1053))
         (- (10624 / 13689)) (5497 / 13689) (- (512 / 1053))
         (664 / 1053) (512 / 1053) (- (49 / 81))"
proof -
  have "swing_of ext twisted_swing_clamped = arc_matrix (Vec3 0 0 (- 1)) (swung_forward twisted_swing_clamped)"
    by (rule swing_of_generic) (simp_all add: ts_result_forward v3_squaredNorm_def dummy_precision_def)
  then show ?thesis by (simp add: ts_result_forward Let_def)
qed

lemma ts_clamped_twist: "twist_of ext twisted_swing_clamped = twisted_swing_clamped_twist"
  unfolding twist_of_def ts_result_swing by (simp add: twisted_swing_clamped_def twisted_swing_clamped_twist_def Let_def)


lemma angle_of_positive_trace:
  fixes a b c d e f g h i :: real
  assumes t: "0 < a + e + i"
      and v: "(h - f) * (h - f) + (c - g) * (c - g) + (d - b) * (d - b) = r * r" and r: "0 < r"
  shows "fst (angle_axis_of_matrix (Mat3 a b c  d e f  g h i)) = 2 * arctan (r / (a + e + i + 1))"
proof -
  define s where "s = sqrt (a + e + i + 1)"
  have s0: "0 < s" using t by (simp add: s_def)
  have ss: "s * s = a + e + i + 1" using t by (simp add: s_def)
  define k where "k = 1 / 2 / s"
  have k0: "0 < k" using s0 by (simp add: k_def)
  have q: "quat_of_matrix (Mat3 a b c  d e f  g h i)
         = Quat (1 / 2 * s) ((h - f) * k) ((c - g) * k) ((d - b) * k)"
    using t by (simp add: quat_of_matrix_def Let_def s_def k_def)
  have "v3_squaredNorm (Vec3 ((h - f) * k) ((c - g) * k) ((d - b) * k))
        = ((h - f) * (h - f) + (c - g) * (c - g) + (d - b) * (d - b)) * (k * k)"
    by (simp add: v3_squaredNorm_def algebra_simps)
  also have "\<dots> = (r * r) * (k * k)" by (simp only: v)
  also have "\<dots> = (r * k) * (r * k)" by (simp add: algebra_simps)
  finally have "v3_norm (Vec3 ((h - f) * k) ((c - g) * k) ((d - b) * k)) = sqrt ((r * k) * (r * k))"
    by (simp only: v3_norm_def)
  also have "\<dots> = r * k" using r k0 by simp
  finally have n: "v3_norm (Vec3 ((h - f) * k) ((c - g) * k) ((d - b) * k)) = r * k" .
  have w0: "0 < 1 / 2 * s" using s0 by simp
  have nz: "r * k \<noteq> 0" using r k0 by simp
  have ratio: "r * k / (1 / 2 * s) = r / (a + e + i + 1)"
  proof -
    have "r * k / (1 / 2 * s) = r / (s * s)" using s0 by (simp add: k_def field_simps)
    then show ?thesis by (simp only: ss)
  qed
  have "atan2 (r * k) (1 / 2 * s) = arctan (r * k / (1 / 2 * s))"
    using w0 by (simp only: atan2_def if_True)
  then have "atan2 (r * k) (1 / 2 * s) = arctan (r / (a + e + i + 1))"
    by (simp only: ratio)
  then show ?thesis
    unfolding angle_axis_of_matrix_def q angle_axis_of_quat_pos[OF w0 n nz] by simp
qed

lemma arctan_three_halves: "pi / 4 + pi / 16 < arctan (3 / 2)"
proof -
  have "arctan 1 + arctan (1 / 5) = arctan ((1 + 1 / 5) / (1 - 1 * (1 / 5)))"
    by (rule arctan_add) simp_all
  then have a: "arctan (3 / 2) = pi / 4 + arctan (1 / 5)"
    by (simp add: arctan_one)
  have "0 < arctan (1 / 239)" by simp
  then have "pi / 16 < arctan (1 / 5)" using machin by linarith
  then show ?thesis using a by linarith
qed

lemma ts_result_angle: "fst (twist_aax_of ext twisted_swing_clamped) = 2 * arctan (3 / 2)"
proof -
  have "fst (angle_axis_of_matrix twisted_swing_clamped_twist)
      = 2 * arctan ((24 / 13) / (265787 / 1601613 + - (91717 / 1601613) + 89 / 729 + 1))"
    unfolding twisted_swing_clamped_twist_def
    by (rule angle_of_positive_trace) simp_all
  then show ?thesis by (simp add: twist_aax_of_def ts_clamped_twist)
qed

text \<open>
  C6, as the spec states it, bounds the twist angle of the rotation that
  \<^verbatim>\<open>clamp_proximals\<close> returns, the twist being measured as the source measures it
  (rotation composed with the inverse of the swing). It fails: with a twist limit of 90
  degrees and the tangent limits -4/3, 4/3, -4 and 4, the rotation \<open>twisted_swing\<close>, whose
  own twist is 90 degrees, comes back with a twist of more than 110 degrees. The tangent
  clamp turns the swing direction, and the capped twist, a rotation about the old
  direction, is no twist about the new one.
\<close>

theorem C6_result_twist_exceeds_limit:
  "is_rotation twisted_swing
   \<and> fst (twist_aax_of sample_externals twisted_swing) = rad 90
   \<and> clamp_proximals_rot sample_externals twisted_swing (rad 90) (- (4 / 3)) (4 / 3) (- 4) 4
       = Some twisted_swing_clamped
   \<and> rad 110 < fst (twist_aax_of sample_externals twisted_swing_clamped)"
proof -
  have r: "is_rotation twisted_swing"
    by (simp add: is_rotation_def twisted_swing_def m3_Identity_def)
  have i: "fst (twist_aax_of sample_externals twisted_swing) = rad 90"
    by (simp add: ts_twist_aax rad_def)
  have "rad 110 < 2 * (pi / 4 + pi / 16)" using pi_gt_zero by (simp add: rad_def)
  then have "rad 110 < fst (twist_aax_of sample_externals twisted_swing_clamped)"
    using arctan_three_halves by (simp add: ts_result_angle)
  with r i ts_clamp_proximals show ?thesis by blast
qed

subsection \<open>The bent hand is consistent\<close>

lemma affine_mul_Identity_left: "affine_mul affine_Identity A = A"
  by (cases "linear A"; cases "translation A")
     (simp add: affine_mul_def affine_Identity_def m3_Identity_def v3_Zero_def)

lemma chain_bent:
  "chain_pose bent_hand f 0 = affine_Identity"
  "chain_pose bent_hand f 1 = affine_Identity"
  "chain_pose bent_hand f 2 = affine_Identity"
  "chain_pose bent_hand f 3 = \<lparr> linear = quarter_turn_x, translation = v3_Zero \<rparr>"
  "chain_pose bent_hand f 4 = \<lparr> linear = quarter_turn_x, translation = Vec3 1 0 0 \<rparr>"
  by (simp_all add: eval_nat_numeral affine_mul_Identity_left bent_hand_def get_bone_def rest_hand_def
      affine_mul_def quarter_turn_x_def m3_Identity_def v3_Zero_def affine_Identity_def)

lemma bent_hand_consistent:
  assumes "bone_idx < 5"
  shows "world_pose (get_bone (forward_kinematics bent_hand) finger_idx bone_idx)
           = world_pose (get_bone bent_hand finger_idx bone_idx)"
proof -
  from assms consider "bone_idx = 0" | "bone_idx = 1" | "bone_idx = 2" | "bone_idx = 3" | "bone_idx = 4"
    by linarith
  then show ?thesis
    by cases (simp_all add: forward_kinematics_def get_bone_def chain_bent,
      simp_all add: bent_hand_def rest_hand_def affine_mul_Identity_left)
qed

end
